theory Spec2Isabelle
  imports Main
begin

section \<open>Python values\<close>

text \<open>
  A Python \<open>str\<close> is a sequence of Unicode code points, so it is modelled as a list of
  natural numbers. \<open>u\<close> turns an ASCII literal into such a list.
\<close>

type_synonym pystr = "nat list"

definition u :: "string \<Rightarrow> pystr" where
  "u s = map of_char s"

text \<open>
  The values that flow through the application: what \<open>json.loads\<close> returns, what the
  inference client returns and what is put into request payloads. A dictionary is an
  association list in insertion order; its keys are strings. A float is represented by
  the text \<open>repr\<close> prints for it (\<open>0.5\<close>, \<open>0.92\<close>, \<open>nan\<close>): the program never
  computes with floats, it only passes them on.
\<close>

datatype pyval =
    PNone
  | PBool bool
  | PInt int
  | PFloat pystr
  | PStr pystr
  | PList "pyval list"
  | PDict "(pystr \<times> pyval) list"

text \<open>
  An exception object, an instance of \<open>Exception\<close> as the libraries raise them and as
  the \<open>except\<close> clauses of the program name them: the name of its class and the text
  \<open>str(e)\<close> gives.
\<close>

datatype exn = Exn (exn_class: string) (exn_str: pystr)

section \<open>String operations of the standard library\<close>

text \<open>
  \<open>str.isspace\<close> for one code point: the characters CPython treats as whitespace
  (U+0009..U+000D, U+001C..U+0020, U+0085, U+00A0, U+1680, U+2000..U+200A, U+2028,
  U+2029, U+202F, U+205F, U+3000).
\<close>

definition isspace :: "nat \<Rightarrow> bool" where
  "isspace c \<longleftrightarrow>
     (9 \<le> c \<and> c \<le> 13) \<or> (28 \<le> c \<and> c \<le> 32) \<or> c = 133 \<or> c = 160 \<or> c = 5760
     \<or> (8192 \<le> c \<and> c \<le> 8202) \<or> c = 8232 \<or> c = 8233 \<or> c = 8239 \<or> c = 8287
     \<or> c = 12288"

text \<open>\<open>s.lstrip()\<close>, \<open>s.rstrip()\<close> and \<open>s.strip()\<close> without arguments.\<close>

definition lstrip :: "pystr \<Rightarrow> pystr" where
  "lstrip s = dropWhile isspace s"

definition rstrip :: "pystr \<Rightarrow> pystr" where
  "rstrip s = rev (dropWhile isspace (rev s))"

definition strip :: "pystr \<Rightarrow> pystr" where
  "strip s = rstrip (lstrip s)"

text \<open>\<open>s.startswith(p)\<close>.\<close>

fun startswith :: "pystr \<Rightarrow> pystr \<Rightarrow> bool" where
  "startswith s [] = True"
| "startswith [] (c # p) = False"
| "startswith (d # s) (c # p) = (d = c \<and> startswith s p)"

section \<open>The JSON encoder of the standard library\<close>

text \<open>\<open>int.__repr__\<close>: the decimal digits, with a minus sign for a negative number.\<close>

fun digits :: "nat \<Rightarrow> pystr" where
  "digits n = (if n < 10 then [48 + n] else digits (n div 10) @ [48 + n mod 10])"

declare digits.simps [simp del]

definition repr_int :: "int \<Rightarrow> pystr" where
  "repr_int i = (if i < 0 then 45 # digits (nat (- i)) else digits (nat i))"

text \<open>The encoder's \<open>floatstr\<close>: JavaScript's names for the three special values.\<close>

definition floatstr :: "pystr \<Rightarrow> pystr" where
  "floatstr r =
     (if r = u ''nan'' then u ''NaN''
      else if r = u ''inf'' then u ''Infinity''
      else if r = u ''-inf'' then u ''-Infinity''
      else r)"

text \<open>
  \<open>encode_basestring_ascii\<close>: the string in double quotes, with the backslash, the
  double quote and every character outside the range from space to tilde escaped; a
  code point beyond the basic plane becomes a surrogate pair.
\<close>

definition hex_digit :: "nat \<Rightarrow> nat" where
  "hex_digit d = (if d < 10 then 48 + d else 87 + d)"

definition hex4 :: "nat \<Rightarrow> pystr" where
  "hex4 n = [hex_digit (n div 4096 mod 16), hex_digit (n div 256 mod 16),
             hex_digit (n div 16 mod 16), hex_digit (n mod 16)]"

definition escape_ascii :: "nat \<Rightarrow> pystr" where
  "escape_ascii c =
     (if c = 92 then [92, 92]
      else if c = 34 then [92, 34]
      else if c = 8 then [92, 98]
      else if c = 12 then [92, 102]
      else if c = 10 then [92, 110]
      else if c = 13 then [92, 114]
      else if c = 9 then [92, 116]
      else if 32 \<le> c \<and> c \<le> 126 then [c]
      else if c < 65536 then [92, 117] @ hex4 c
      else [92, 117] @ hex4 (55296 + (c - 65536) div 1024 mod 1024)
         @ [92, 117] @ hex4 (56320 + (c - 65536) mod 1024))"

definition encode_basestring_ascii :: "pystr \<Rightarrow> pystr" where
  "encode_basestring_ascii s = [34] @ concat (map escape_ascii s) @ [34]"

text \<open>\<open>sep.join(xs)\<close>.\<close>

fun join :: "pystr \<Rightarrow> pystr list \<Rightarrow> pystr" where
  "join sep [] = []"
| "join sep [x] = x"
| "join sep (x # y # ys) = x @ sep @ join sep (y # ys)"

text \<open>
  The encoder with an indentation of \<open>ind\<close> spaces, at nesting level \<open>lvl\<close>: an empty
  container is printed closed; the items of any other container stand on lines of their
  own, separated by commas, and a key is followed by a colon and a space.
\<close>

definition newline_indent :: "nat \<Rightarrow> nat \<Rightarrow> pystr" where
  "newline_indent ind lvl = 10 # replicate (ind * lvl) 32"

fun iterencode :: "nat \<Rightarrow> nat \<Rightarrow> pyval \<Rightarrow> pystr" where
  "iterencode ind lvl PNone = u ''null''"
| "iterencode ind lvl (PBool b) = (if b then u ''true'' else u ''false'')"
| "iterencode ind lvl (PInt i) = repr_int i"
| "iterencode ind lvl (PFloat r) = floatstr r"
| "iterencode ind lvl (PStr s) = encode_basestring_ascii s"
| "iterencode ind lvl (PList xs) =
     (if xs = [] then u ''[]''
      else [91] @ newline_indent ind (lvl + 1)
         @ join (44 # newline_indent ind (lvl + 1)) (map (iterencode ind (lvl + 1)) xs)
         @ newline_indent ind lvl @ [93])"
| "iterencode ind lvl (PDict kvs) =
     (if kvs = [] then u ''{}''
      else [123] @ newline_indent ind (lvl + 1)
         @ join (44 # newline_indent ind (lvl + 1))
             (map (\<lambda>(k, v). encode_basestring_ascii k @ u '': '' @ iterencode ind (lvl + 1) v)
                kvs)
         @ newline_indent ind lvl @ [125])"

text \<open>\<open>json.dumps(obj, indent=indent)\<close>.\<close>

definition json_dumps :: "pyval \<Rightarrow> nat \<Rightarrow> pystr" where
  "json_dumps obj indent = iterencode indent 0 obj"

section \<open>The uploaded file and the libraries that read it\<close>

text \<open>
  The upload widget hands over a file object: its name, its declared media type and its
  bytes.
\<close>

record uploaded_file =
  file_name :: pystr
  file_type :: pystr
  file_data :: "nat list"

text \<open>
  \<open>pdfplumber\<close> is a library. An opened document is modelled by what the program reads
  from it: for each page, in page order, the result of \<open>page.extract_text()\<close>, which is a
  string or \<open>None\<close>.
\<close>

type_synonym pdf = "pystr option list"

text \<open>
  An image as \<open>PIL.Image.open\<close> returns it: the four attributes the program reads, and
  the pixel data it never reads. The attribute \<open>format\<close> may be \<open>None\<close>.
\<close>

record image =
  format :: "pystr option"
  mode :: pystr
  width :: int
  height :: int
  pixels :: "nat list"

text \<open>
  A request to the inference service, with the three keyword arguments of
  \<open>brt.converse\<close>, and the client object, modelled by what its method \<open>converse\<close>
  does with a request: it raises an exception or returns the reply.
\<close>

record request =
  modelId :: pystr
  messages :: pyval
  inferenceConfig :: pyval

type_synonym client = "request \<Rightarrow> exn + pyval"

text \<open>
  The effects of a run, in the order they happen: the calls of the user interface with
  their arguments, and the requests sent to the inference service.
\<close>

datatype event =
    St_spinner pystr
  | St_error pystr
  | St_text pyval
  | St_subheader pystr
  | St_columns nat
  | St_metric pystr pyval
  | St_success pyval
  | St_warning pystr
  | St_button pystr
  | St_tabs "pystr list"
  | St_text_area pystr pystr nat
  | St_json pyval
  | St_download_button pystr pystr pystr pystr
  | Brt_converse request

text \<open>
  Everything outside the program that a run depends on: the secrets store, the library
  functions \<open>pdfplumber.open\<close>, \<open>Image.open\<close>, \<open>boto3.client\<close> (with its
  arguments service name, region and the two credentials) and \<open>json.loads\<close>, each of
  which either raises an exception (\<open>Inl\<close>) or returns a result (\<open>Inr\<close>), and the
  user interface library, which checks what it is asked to show: \<open>st_raises\<close> is
  \<open>None\<close> for a call it carries out and the exception for a call it rejects (as
  \<open>st.metric\<close> rejects a list as its value).
\<close>

record env =
  secrets :: "pystr \<rightharpoonup> pystr"
  pdfplumber_open :: "uploaded_file \<Rightarrow> exn + pdf"
  Image_open :: "uploaded_file \<Rightarrow> exn + image"
  boto3_client :: "pystr \<Rightarrow> pystr \<Rightarrow> pystr option \<Rightarrow> pystr option \<Rightarrow> exn + client"
  json_loads :: "pyval \<Rightarrow> exn + pyval"
  st_raises :: "event \<Rightarrow> exn option"

section \<open>Content extraction from a PDF\<close>

text \<open>The truth value of \<open>page_text\<close> in \<open>if page_text:\<close>.\<close>

fun truthy :: "pystr option \<Rightarrow> bool" where
  "truthy None = False"
| "truthy (Some s) = (s \<noteq> [])"

text \<open>
  The loop of \<open>extract_text_from_pdf\<close>, with the variable \<open>text\<close> as accumulator:
  \<^verbatim>\<open>
    for page in pdf.pages:
        page_text = page.extract_text()
        if page_text:
            text += page_text + "\n"
  \<close>
\<close>

fun extract_pages :: "pdf \<Rightarrow> pystr \<Rightarrow> pystr" where
  "extract_pages [] text = text"
| "extract_pages (page_text # pages) text =
     extract_pages pages (if truthy page_text then text @ (the page_text @ [10]) else text)"

text \<open>An exception of \<open>pdfplumber.open\<close> is not handled: it leaves the function.\<close>

definition extract_text_from_pdf :: "env \<Rightarrow> uploaded_file \<Rightarrow> exn + pystr" where
  "extract_text_from_pdf e file =
     (case pdfplumber_open e file of
        Inl err \<Rightarrow> Inl err
      | Inr pages \<Rightarrow> Inr (strip (extract_pages pages [])))"

text \<open>
  The sentence of the specification about the PDF path, in its own words: the page
  texts, each followed by a newline, concatenated in page order and trimmed of trailing
  whitespace.
\<close>

definition spec_pdf_text :: "pystr list \<Rightarrow> pystr" where
  "spec_pdf_text texts = rstrip (concat (map (\<lambda>t. t @ [10]) texts))"

section \<open>Content extraction from an image\<close>

text \<open>An exception of \<open>Image.open\<close> is not handled either.\<close>

definition process_image :: "env \<Rightarrow> uploaded_file \<Rightarrow> exn + pyval" where
  "process_image e file =
     (case Image_open e file of
        Inl err \<Rightarrow> Inl err
      | Inr img \<Rightarrow>
          Inr (PDict
            [(u ''document_type'', PStr (u ''Image'')),
             (u ''format'', case format img of None \<Rightarrow> PNone | Some f \<Rightarrow> PStr f),
             (u ''mode'', PStr (mode img)),
             (u ''width'', PInt (width img)),
             (u ''height'', PInt (height img))]))"

section \<open>The prompt\<close>

text \<open>The given lines, each followed by a newline.\<close>

definition lines :: "string list \<Rightarrow> pystr" where
  "lines ls = concat (map (\<lambda>l. u l @ [10]) ls)"

text \<open>
  \<open>build_prompt\<close>: the formatted string literal of the source, which opens with a
  newline and has one placeholder, \<open>document_text\<close>; a doubled brace of the literal is
  one brace of the text.
\<close>

definition build_prompt :: "pystr \<Rightarrow> pystr" where
  "build_prompt document_text =
     lines
       ['''',
        ''You are an AI document intelligence assistant.'',
        '''',
        ''TASKS:'',
        ''1. Generate a concise business-friendly summary.'',
        ''2. Identify the document domain (Healthcare, Legal, Finance, Insurance, Government, etc.).'',
        ''3. Identify document origin/geography (India, US, EU, etc.) if possible.'',
        ''4. Identify document type.'',
        ''5. Decide ERP readiness.'',
        ''6. Transform the data into structured JSON.'',
        '''',
        ''ERP READINESS RULES:'',
        ''- READY: Key fields are clear and usable'',
        ''- NOT_READY: Missing or unclear fields'',
        '''',
        ''STRICT OUTPUT FORMAT (JSON ONLY):'',
        ''{'',
        ''  \"summary\": \"<short summary>\",'',
        ''  \"domain\": \"<Healthcare | Legal | Finance | Insurance | Other>\",'',
        ''  \"origin\": \"<Country or Region or Unknown>\",'',
        ''  \"document_type\": \"<Invoice | Judgment | Medical Report | Policy | Other>\",'',
        ''  \"erp_status\": \"<READY | NOT_READY>\",'',
        ''  \"transformed_data\": {'',
        ''    \"key_points\": [],'',
        ''    \"entities\": {},'',
        ''    \"confidence\": 0.0'',
        ''  }'',
        ''}'',
        '''',
        ''<Input_Text>'']
     @ document_text
     @ lines
       ['''',
        ''</Input_Text>'']"

section \<open>Runs: the effects so far and how a piece of the program ends\<close>

text \<open>
  A piece of the program either runs to its end with a result, or is left early:
  by \<open>st.stop()\<close>, which ends the script, or by an exception.
\<close>

datatype halt = Stopped | Raised exn

type_synonym 'a run = "event list \<times> (halt + 'a)"

definition ret :: "'a \<Rightarrow> 'a run" where
  "ret x = ([], Inr x)"

definition emit :: "event \<Rightarrow> unit run" where
  "emit ev = ([ev], Inr ())"

definition st_stop :: "'a run" where
  "st_stop = ([], Inl Stopped)"

definition py_raise :: "exn \<Rightarrow> 'a run" where
  "py_raise err = ([], Inl (Raised err))"

text \<open>
  A call of the user interface that shows a value of the document or of the reply:
  the call is made, and the library carries it out or raises its exception.
\<close>

definition st_call :: "env \<Rightarrow> event \<Rightarrow> unit run" where
  "st_call e ev =
     (case st_raises e ev of
        None \<Rightarrow> ([ev], Inr ())
      | Some err \<Rightarrow> ([ev], Inl (Raised err)))"

text \<open>The outcome of a library call, as a run without effects.\<close>

definition of_result :: "exn + 'a \<Rightarrow> 'a run" where
  "of_result r = (case r of Inl err \<Rightarrow> py_raise err | Inr x \<Rightarrow> ret x)"

text \<open>One statement after another: the second runs only if the first ran to its end.\<close>

definition bind :: "'a run \<Rightarrow> ('a \<Rightarrow> 'b run) \<Rightarrow> 'b run" where
  "bind m f =
     (case snd m of
        Inl h \<Rightarrow> (fst m, Inl h)
      | Inr x \<Rightarrow> (fst m @ fst (f x), snd (f x)))"

definition seq :: "unit run \<Rightarrow> 'b run \<Rightarrow> 'b run" where
  "seq m n = bind m (\<lambda>_. n)"

text \<open>
  \<open>try: m except Exception as err: handler\<close>. The exception that \<open>st.stop()\<close> raises
  is not an \<open>Exception\<close>, so it passes through.
\<close>

definition catch :: "'a run \<Rightarrow> (exn \<Rightarrow> 'a run) \<Rightarrow> 'a run" where
  "catch m handler =
     (case snd m of
        Inl (Raised err) \<Rightarrow> (fst m @ fst (handler err), snd (handler err))
      | _ \<Rightarrow> m)"

text \<open>One exception-raising step after another, for expressions without effects.\<close>

definition and_then :: "exn + 'a \<Rightarrow> ('a \<Rightarrow> exn + 'b) \<Rightarrow> exn + 'b" where
  "and_then r f = (case r of Inl err \<Rightarrow> Inl err | Inr x \<Rightarrow> f x)"

section \<open>Subscripts and dictionary lookups\<close>

fun type_name :: "pyval \<Rightarrow> string" where
  "type_name PNone = ''NoneType''"
| "type_name (PBool b) = ''bool''"
| "type_name (PInt i) = ''int''"
| "type_name (PFloat r) = ''float''"
| "type_name (PStr s) = ''str''"
| "type_name (PList xs) = ''list''"
| "type_name (PDict kvs) = ''dict''"

definition not_subscriptable :: "pyval \<Rightarrow> exn" where
  "not_subscriptable obj =
     Exn ''TypeError'' ([39] @ u (type_name obj) @ [39] @ u '' object is not subscriptable'')"

text \<open>
  \<open>obj[key]\<close> for a string \<open>key\<close>. The text of a \<open>KeyError\<close> is the \<open>repr\<close> of
  the key: the key in single quotes, for a key of letters as the program's keys are.
\<close>

fun getitem :: "pyval \<Rightarrow> pystr \<Rightarrow> exn + pyval" where
  "getitem (PDict kvs) key =
     (case map_of kvs key of
        None \<Rightarrow> Inl (Exn ''KeyError'' ([39] @ key @ [39]))
      | Some v \<Rightarrow> Inr v)"
| "getitem (PList xs) key =
     Inl (Exn ''TypeError'' (u ''list indices must be integers or slices, not str''))"
| "getitem (PStr s) key =
     Inl (Exn ''TypeError'' (u ''string indices must be integers, not '' @ [39] @ u ''str'' @ [39]))"
| "getitem obj key = Inl (not_subscriptable obj)"

text \<open>\<open>obj[0]\<close>. The keys of a dictionary are strings here, so \<open>0\<close> is never one.\<close>

fun getitem0 :: "pyval \<Rightarrow> exn + pyval" where
  "getitem0 (PList []) = Inl (Exn ''IndexError'' (u ''list index out of range''))"
| "getitem0 (PList (x # xs)) = Inr x"
| "getitem0 (PStr []) = Inl (Exn ''IndexError'' (u ''string index out of range''))"
| "getitem0 (PStr (c # s)) = Inr (PStr [c])"
| "getitem0 (PDict kvs) = Inl (Exn ''KeyError'' (u ''0''))"
| "getitem0 obj = Inl (not_subscriptable obj)"

text \<open>\<open>dict.get(key, default)\<close> on the items of a dictionary.\<close>

definition dict_get :: "(pystr \<times> pyval) list \<Rightarrow> pystr \<Rightarrow> pyval \<Rightarrow> pyval" where
  "dict_get kvs key dflt = (case map_of kvs key of None \<Rightarrow> dflt | Some v \<Rightarrow> v)"

text \<open>\<open>obj.get(key, default)\<close>: only a dictionary has the method.\<close>

fun py_get :: "pyval \<Rightarrow> pystr \<Rightarrow> pyval \<Rightarrow> exn + pyval" where
  "py_get (PDict kvs) key dflt = Inr (dict_get kvs key dflt)"
| "py_get obj key dflt =
     Inl (Exn ''AttributeError''
       ([39] @ u (type_name obj) @ [39] @ u '' object has no attribute '' @ [39] @ u ''get''
        @ [39]))"

section \<open>The inference call\<close>

definition MODEL_ID :: pystr where
  "MODEL_ID = u ''apac.anthropic.claude-3-5-sonnet-20241022-v2:0''"

definition AWS_REGION :: "env \<Rightarrow> pystr" where
  "AWS_REGION e = (case secrets e (u ''AWS_REGION'') of None \<Rightarrow> u ''ap-south-1'' | Some r \<Rightarrow> r)"

definition AWS_ACCESS_KEY :: "env \<Rightarrow> pystr option" where
  "AWS_ACCESS_KEY e = secrets e (u ''AWS_ACCESS_KEY_ID'')"

definition AWS_SECRET_KEY :: "env \<Rightarrow> pystr option" where
  "AWS_SECRET_KEY e = secrets e (u ''AWS_SECRET_ACCESS_KEY'')"

definition get_bedrock_client :: "env \<Rightarrow> exn + client" where
  "get_bedrock_client e =
     boto3_client e (u ''bedrock-runtime'') (AWS_REGION e) (AWS_ACCESS_KEY e) (AWS_SECRET_KEY e)"

text \<open>The call \<open>brt.converse(...)\<close>: the request goes out, then the client answers.\<close>

definition brt_converse :: "client \<Rightarrow> request \<Rightarrow> pyval run" where
  "brt_converse brt req = bind (emit (Brt_converse req)) (\<lambda>_. of_result (brt req))"

text \<open>
  \<open>converse\<close> (primed here, as HOL has a constant of that name): one request; the
  reply's \<open>["output"]["message"]["content"][0]["text"]\<close>
  is returned; any exception of the call or of the subscripts is replaced by a
  \<open>RuntimeError\<close> whose text ends with the text of the exception.
\<close>

definition converse' :: "client \<Rightarrow> pystr \<Rightarrow> pystr \<Rightarrow> pyval run" where
  "converse' brt model_id user_message =
     catch
       (bind
          (brt_converse brt
             \<lparr>modelId = model_id,
              messages =
                PList
                  [PDict
                     [(u ''role'', PStr (u ''user'')),
                      (u ''content'', PList [PDict [(u ''text'', PStr user_message)]])]],
              inferenceConfig =
                PDict
                  [(u ''maxTokens'', PInt 8192),
                   (u ''temperature'', PFloat (u ''0.5'')),
                   (u ''topP'', PFloat (u ''0.9''))]\<rparr>)
          (\<lambda>response.
             of_result
               (and_then (and_then (and_then (and_then
                  (getitem response (u ''output''))
                  (\<lambda>v. getitem v (u ''message'')))
                  (\<lambda>v. getitem v (u ''content'')))
                  getitem0)
                  (\<lambda>v. getitem v (u ''text'')))))
       (\<lambda>err. py_raise (Exn ''RuntimeError'' (u ''Bedrock invocation failed: '' @ exn_str err)))"

section \<open>Processing an uploaded document\<close>

text \<open>
  The block of the script that runs when the user presses the button, in four pieces.
  First the extraction: the media type selects the PDF path, the image path or the
  error for an unsupported type; an empty text ends the run.
\<close>

definition extract_content :: "env \<Rightarrow> uploaded_file \<Rightarrow> pystr run" where
  "extract_content e uploaded_file =
     bind
       (if file_type uploaded_file = u ''application/pdf'' then
          of_result (extract_text_from_pdf e uploaded_file)
        else if startswith (file_type uploaded_file) (u ''image/'') then
          bind (of_result (process_image e uploaded_file))
            (\<lambda>image_info. ret (json_dumps image_info 2))
        else seq (emit (St_error (u ''Unsupported file type''))) st_stop)
       (\<lambda>extracted_text.
          if extracted_text = [] then seq (emit (St_error (u ''No content extracted''))) st_stop
          else ret extracted_text)"

text \<open>
  The handler of the \<open>try\<close> block: the error message, the text of the exception and
  the reply of the model if the variable \<open>llm_response\<close> is bound, the empty string if
  it is not; then the script stops.
\<close>

definition failed :: "exn \<Rightarrow> pyval option \<Rightarrow> 'a run" where
  "failed err llm_response =
     seq (emit (St_error (u ''Failed to process document'')))
    (seq (emit (St_text (PStr (exn_str err))))
    (seq (emit (St_text (case llm_response of None \<Rightarrow> PStr [] | Some r \<Rightarrow> r)))
     st_stop))"

text \<open>
  The first two statements of the \<open>try\<close> block: the client is made and the model is
  called. An exception here reaches the handler with \<open>llm_response\<close> unbound.
\<close>

definition invoke :: "env \<Rightarrow> pystr \<Rightarrow> pyval run" where
  "invoke e prompt =
     catch
       (bind (of_result (get_bedrock_client e)) (\<lambda>brt. converse' brt MODEL_ID prompt))
       (\<lambda>err. failed err None)"

text \<open>
  The third statement of the \<open>try\<close> block: the reply is parsed. An exception here
  reaches the handler with \<open>llm_response\<close> bound.
\<close>

definition interpret_response :: "env \<Rightarrow> pyval \<Rightarrow> pyval run" where
  "interpret_response e llm_response =
     catch (of_result (json_loads e llm_response)) (\<lambda>err. failed err (Some llm_response))"

text \<open>
  The branch on the readiness for the ERP service: \<open>==\<close> holds for the string
  \<open>READY\<close> and for no other parsed value.
\<close>

definition erp_readiness :: "pyval \<Rightarrow> event" where
  "erp_readiness erp_status =
     (if erp_status = PStr (u ''READY'') then
        St_success (PStr (9989 # u '' Ready to Load ERP Service''))
      else St_warning (9203 # u '' Needs Manual Review Before ERP Load''))"

text \<open>
  The presentation of the parsed reply, which stands after the \<open>try\<close> block: an
  exception of a lookup or of a call of the user interface is not handled and ends the
  run. The calls with a fixed text are \<open>emit\<close>, the calls that show a value of the reply
  or the extracted text are \<open>st_call\<close>. The non-ASCII characters of the labels are
  written as code points.
\<close>

definition present :: "env \<Rightarrow> pystr \<Rightarrow> pyval \<Rightarrow> unit run" where
  "present e extracted_text parsed =
     seq (emit (St_subheader (128204 # u '' Document Summary'')))
    (seq (emit (St_columns 3))
    (bind (of_result (py_get parsed (u ''domain'') (PStr (u ''Unknown'')))) (\<lambda>domain.
     seq (st_call e (St_metric (u ''Domain'') domain))
    (bind (of_result (py_get parsed (u ''origin'') (PStr (u ''Unknown'')))) (\<lambda>origin.
     seq (st_call e (St_metric (u ''Origin'') origin))
    (bind (of_result (py_get parsed (u ''document_type'') (PStr (u ''Unknown''))))
       (\<lambda>document_type.
     seq (st_call e (St_metric (u ''Document Type'') document_type))
    (bind (of_result (py_get parsed (u ''summary'') (PStr (u ''No summary available''))))
       (\<lambda>summary.
     seq (st_call e (St_success summary))
    (seq (emit (St_subheader ([9881, 65039] @ u '' ERP Readiness'')))
    (bind (of_result (py_get parsed (u ''erp_status'') (PStr (u ''NOT_READY''))))
       (\<lambda>erp_status.
     seq (emit (erp_readiness erp_status))
    (seq (emit (St_columns 2))
    (seq (emit (St_button (128640 # u '' Send to ERP'')))
    (seq (emit (St_button (128221 # u '' Mark for Manual Review'')))
    (seq (emit (St_tabs [128221 # u '' Extracted Text'', 128202 # u '' Transformed Data'']))
    (seq (st_call e (St_text_area (u ''Extracted Content'') extracted_text 400))
    (bind (of_result (py_get parsed (u ''transformed_data'') (PDict [])))
       (\<lambda>transformed_data.
     seq (st_call e (St_json transformed_data))
         (st_call e (St_download_button (11015 # u '' Download Transformed JSON'')
            (json_dumps transformed_data 2) (u ''transformed_data.json'')
            (u ''application/json''))))))))))))))))))))))"

definition process :: "env \<Rightarrow> uploaded_file \<Rightarrow> unit run" where
  "process e uploaded_file =
     seq (emit (St_spinner (u ''Processing document using CTD's Gen AI...'')))
    (bind (extract_content e uploaded_file) (\<lambda>extracted_text.
     bind (invoke e (build_prompt extracted_text)) (\<lambda>llm_response.
     bind (interpret_response e llm_response) (\<lambda>parsed.
     present e extracted_text parsed))))"

section \<open>Example inputs\<close>

text \<open>
  Files and an environment to run the definitions on: a PDF of two pages, a white
  image of ten by ten pixels, an inference service that answers every request with one
  JSON document, a stand-in for \<open>json.loads\<close> that parses that document and the
  empty object and rejects every other text the way the library rejects prose, and a
  user interface that rejects a list or a dictionary as the value of a metric and
  carries out every other call.
\<close>

definition example_pdf :: uploaded_file where
  "example_pdf =
     \<lparr>file_name = u ''invoice.pdf'', file_type = u ''application/pdf'', file_data = []\<rparr>"

definition example_png :: uploaded_file where
  "example_png =
     \<lparr>file_name = u ''white.png'', file_type = u ''image/png'', file_data = []\<rparr>"

definition example_image :: image where
  "example_image =
     \<lparr>format = Some (u ''PNG''), mode = u ''RGB'', width = 10, height = 10,
      pixels = replicate 300 255\<rparr>"

definition example_text :: pystr where
  "example_text =
     u ''{\"summary\":\"Invoice for $100\",\"domain\":\"Finance\",\"origin\":\"US\",''
     @ u ''\"document_type\":\"Invoice\",\"erp_status\":\"READY\",''
     @ u ''\"transformed_data\":{\"key_points\":[\"Invoice #42\"],''
     @ u ''\"entities\":{\"total\":\"100\"},\"confidence\":0.92}}''"

definition example_data :: pyval where
  "example_data =
     PDict
       [(u ''key_points'', PList [PStr (u ''Invoice #42'')]),
        (u ''entities'', PDict [(u ''total'', PStr (u ''100''))]),
        (u ''confidence'', PFloat (u ''0.92''))]"

definition example_items :: "(pystr \<times> pyval) list" where
  "example_items =
     [(u ''summary'', PStr (u ''Invoice for $100'')),
      (u ''domain'', PStr (u ''Finance'')),
      (u ''origin'', PStr (u ''US'')),
      (u ''document_type'', PStr (u ''Invoice'')),
      (u ''erp_status'', PStr (u ''READY'')),
      (u ''transformed_data'', example_data)]"

text \<open>The record that the image path builds for the example image.\<close>

definition example_image_info :: "(pystr \<times> pyval) list" where
  "example_image_info =
     [(u ''document_type'', PStr (u ''Image'')),
      (u ''format'', PStr (u ''PNG'')),
      (u ''mode'', PStr (u ''RGB'')),
      (u ''width'', PInt 10),
      (u ''height'', PInt 10)]"

text \<open>A reply of the service whose first content segment is the given text.\<close>

definition reply_with :: "pystr \<Rightarrow> pyval" where
  "reply_with t =
     PDict
       [(u ''output'',
         PDict
           [(u ''message'',
             PDict
               [(u ''role'', PStr (u ''assistant'')),
                (u ''content'', PList [PDict [(u ''text'', PStr t)]])])])]"

definition example_env :: env where
  "example_env =
     \<lparr>secrets = Map.empty,
      pdfplumber_open = (\<lambda>f. Inr [Some (u '' Invoice #42,''), Some (u ''Total $100 '')]),
      Image_open = (\<lambda>f. Inr example_image),
      boto3_client = (\<lambda>service region key secret. Inr (\<lambda>r. Inr (reply_with example_text))),
      json_loads =
        (\<lambda>s. if s = PStr example_text then Inr (PDict example_items)
             else if s = PStr (u ''{}'') then Inr (PDict [])
             else Inl (Exn ''JSONDecodeError'' (u ''Expecting value: line 1 column 1 (char 0)''))),
      st_raises =
        (\<lambda>ev. case ev of
             St_metric label (PList xs) \<Rightarrow> Some (Exn ''TypeError'' (u ''not an accepted type''))
           | St_metric label (PDict kvs) \<Rightarrow> Some (Exn ''TypeError'' (u ''not an accepted type''))
           | _ \<Rightarrow> None)\<rparr>"


text \<open>The same environment with a service that answers with the empty object.\<close>

definition empty_object_env :: env where
  "empty_object_env =
     example_env
       \<lparr>boto3_client :=
          (\<lambda>service region key secret. Inr (\<lambda>r. Inr (reply_with (u ''{}''))))\<rparr>"

text \<open>A client whose call fails.\<close>

definition denied_client :: client where
  "denied_client = (\<lambda>r. Inl (Exn ''ClientError'' (u ''AccessDeniedException'')))"

section \<open>Runs\<close>

text \<open>Facts about the sequencing of runs, used to evaluate the definitions below.\<close>

lemma bind_Inr: "bind (es, Inr x) f = (es @ fst (f x), snd (f x))"
  by (simp add: bind_def)

lemma bind_Inl: "bind (es, Inl h) f = (es, Inl h)"
  by (simp add: bind_def)

lemma seq_Inr: "seq (es, Inr x) n = (es @ fst n, snd n)"
  by (simp add: seq_def bind_def)

lemma bind_of_result_Inr: "bind (of_result (Inr x)) f = f x"
  by (simp add: of_result_def ret_def bind_def)

lemma bind_of_result_Inl: "bind (of_result (Inl err)) f = ([], Inl (Raised err))"
  by (simp add: of_result_def py_raise_def bind_def)

section \<open>The PDF path\<close>

lemma extract_pages_concat:
  "extract_pages pages acc =
     acc @ concat (map (\<lambda>p. the p @ [10]) (filter truthy pages))"
  by (induction pages arbitrary: acc) simp_all

lemma filter_truthy_all:
  "(\<forall>p \<in> set pages. truthy p) \<Longrightarrow> filter truthy pages = pages"
  by (induction pages) simp_all

text \<open>
  C1, as the specification states it, fails: \<open>str.strip\<close> removes whitespace at both
  ends. A one-page document whose text is a space followed by the letter a yields the
  single letter, while trimming only the trailing whitespace keeps the leading space.
\<close>

theorem C1_trailing_only_counterexample:
  "truthy (Some (u '' a''))
   \<and> extract_text_from_pdf (example_env\<lparr>pdfplumber_open := (\<lambda>f. Inr [Some (u '' a'')])\<rparr>)
       example_pdf = Inr (u ''a'')
   \<and> spec_pdf_text [u '' a''] = u '' a''
   \<and> extract_text_from_pdf (example_env\<lparr>pdfplumber_open := (\<lambda>f. Inr [Some (u '' a'')])\<rparr>)
       example_pdf \<noteq> Inr (spec_pdf_text [u '' a''])"
  by (simp add: extract_text_from_pdf_def spec_pdf_text_def strip_def lstrip_def rstrip_def
      isspace_def u_def)

text \<open>
  C1 (amended): for every PDF that opens, the extractor's output is the concatenation,
  in page order, of the text of each page that yields some, each followed by a newline,
  trimmed of whitespace at both ends: a page whose extraction yields nothing (\<open>None\<close>
  or the empty string) contributes nothing. So when every page yields non-empty text,
  the output is the trimmed concatenation of all the page texts, each followed by a
  newline.
\<close>

theorem C1_extract_text_from_pdf:
  assumes "pdfplumber_open e file = Inr pages"
  shows "extract_text_from_pdf e file
           = Inr (strip (concat (map (\<lambda>p. the p @ [10]) (filter truthy pages))))
         \<and> ((\<forall>p \<in> set pages. truthy p) \<longrightarrow>
              extract_text_from_pdf e file
                = Inr (strip (concat (map (\<lambda>p. the p @ [10]) pages))))"
  using assms
  by (simp add: extract_text_from_pdf_def extract_pages_concat filter_truthy_all)

theorem C1_extract_text_from_pdf_witness:
  "pdfplumber_open example_env example_pdf
     = Inr [Some (u '' Invoice #42,''), Some (u ''Total $100 '')]
   \<and> truthy (Some (u '' Invoice #42,'')) \<and> truthy (Some (u ''Total $100 ''))
   \<and> extract_text_from_pdf example_env example_pdf = Inr (u ''Invoice #42,\<newline>Total $100'')"
proof -
  have opened: "pdfplumber_open example_env example_pdf
      = Inr [Some (u '' Invoice #42,''), Some (u ''Total $100 '')]"
    by (simp add: example_env_def)
  show ?thesis
    using C1_extract_text_from_pdf [OF opened] opened
    by (simp add: strip_def lstrip_def rstrip_def isspace_def u_def)
qed

section \<open>The image path\<close>

lemma image_type_not_pdf:
  "startswith ft (u ''image/'') \<Longrightarrow> ft \<noteq> u ''application/pdf''"
  by (auto simp add: u_def)

lemma json_dumps_dict_nonempty: "json_dumps (PDict (kv # kvs)) indent \<noteq> []"
  by (simp add: json_dumps_def)

lemma extract_content_image:
  assumes "startswith (file_type file) (u ''image/'')"
  shows "extract_content e file =
     (case Image_open e file of
        Inl err \<Rightarrow> ([], Inl (Raised err))
      | Inr img \<Rightarrow>
          ([], Inr (json_dumps (PDict
            [(u ''document_type'', PStr (u ''Image'')),
             (u ''format'', case format img of None \<Rightarrow> PNone | Some f \<Rightarrow> PStr f),
             (u ''mode'', PStr (mode img)),
             (u ''width'', PInt (width img)),
             (u ''height'', PInt (height img))]) 2)))"
  using assms image_type_not_pdf [OF assms]
  by (simp add: extract_content_def process_image_def bind_def of_result_def py_raise_def
      ret_def json_dumps_dict_nonempty split: sum.splits)

lemma replicate_two: "replicate 2 x = [x, x]"
  by (simp add: numeral_2_eq_2)

lemma image_record_text:
  "json_dumps (PDict
     [(u ''document_type'', PStr (u ''Image'')),
      (u ''format'', fmt),
      (u ''mode'', PStr m),
      (u ''width'', PInt w),
      (u ''height'', PInt h)]) 2 =
   u ''{'' @ [10]
   @ u ''  \"document_type\": \"Image\",'' @ [10]
   @ u ''  \"format\": '' @ iterencode 2 1 fmt @ u '','' @ [10]
   @ u ''  \"mode\": '' @ encode_basestring_ascii m @ u '','' @ [10]
   @ u ''  \"width\": '' @ repr_int w @ u '','' @ [10]
   @ u ''  \"height\": '' @ repr_int h @ [10]
   @ u ''}''"
  by (simp add: json_dumps_def newline_indent_def u_def encode_basestring_ascii_def
      escape_ascii_def replicate_two)

text \<open>
  C4, as the specification states it, fails: the record that \<open>process_image\<close> builds
  has five keys. Besides the four attributes of the image it carries the key
  \<open>document_type\<close>, so its keys are not exactly the four metadata keys.
\<close>

theorem C4_four_keys_counterexample:
  "process_image example_env example_png = Inr (PDict example_image_info)
   \<and> set (map fst example_image_info) \<noteq> {u ''format'', u ''mode'', u ''width'', u ''height''}"
proof -
  have "u ''document_type'' \<in> set (map fst example_image_info)"
    by (simp add: example_image_info_def)
  moreover have "u ''document_type'' \<notin> {u ''format'', u ''mode'', u ''width'', u ''height''}"
    by (simp add: u_def)
  ultimately have
    "set (map fst example_image_info) \<noteq> {u ''format'', u ''mode'', u ''width'', u ''height''}"
    by metis
  moreover have "process_image example_env example_png = Inr (PDict example_image_info)"
    by (simp add: process_image_def example_env_def example_image_def example_image_info_def)
  ultimately show ?thesis by simp
qed

text \<open>
  C4 (amended): for every image file that the imaging library opens, the extractor's
  output is the indented JSON text of a record with exactly five keys, in this order:
  \<open>document_type\<close> with the constant value \<open>Image\<close>, then \<open>format\<close>, \<open>mode\<close>,
  \<open>width\<close> and \<open>height\<close> with the attributes of the image; the output does not
  depend on the pixels: the same file with any other pixel data yields the same text.
\<close>

theorem C4_image_record:
  assumes "startswith (file_type file) (u ''image/'')"
    and "Image_open e file = Inr img"
  shows "process_image e file =
           Inr (PDict
             [(u ''document_type'', PStr (u ''Image'')),
              (u ''format'', case format img of None \<Rightarrow> PNone | Some f \<Rightarrow> PStr f),
              (u ''mode'', PStr (mode img)),
              (u ''width'', PInt (width img)),
              (u ''height'', PInt (height img))])
         \<and> extract_content e file =
           ([], Inr (
              u ''{'' @ [10]
              @ u ''  \"document_type\": \"Image\",'' @ [10]
              @ u ''  \"format\": ''
              @ (case format img of None \<Rightarrow> u ''null'' | Some f \<Rightarrow> encode_basestring_ascii f)
              @ u '','' @ [10]
              @ u ''  \"mode\": '' @ encode_basestring_ascii (mode img) @ u '','' @ [10]
              @ u ''  \"width\": '' @ repr_int (width img) @ u '','' @ [10]
              @ u ''  \"height\": '' @ repr_int (height img) @ [10]
              @ u ''}''))
         \<and> (\<forall>px. extract_content
                 (e\<lparr>Image_open := (Image_open e)(file := Inr (img\<lparr>pixels := px\<rparr>))\<rparr>) file
               = extract_content e file)"
proof -
  have "process_image e file =
           Inr (PDict
             [(u ''document_type'', PStr (u ''Image'')),
              (u ''format'', case format img of None \<Rightarrow> PNone | Some f \<Rightarrow> PStr f),
              (u ''mode'', PStr (mode img)),
              (u ''width'', PInt (width img)),
              (u ''height'', PInt (height img))])"
    using assms(2) by (simp add: process_image_def)
  moreover have "extract_content e file =
           ([], Inr (
              u ''{'' @ [10]
              @ u ''  \"document_type\": \"Image\",'' @ [10]
              @ u ''  \"format\": ''
              @ (case format img of None \<Rightarrow> u ''null'' | Some f \<Rightarrow> encode_basestring_ascii f)
              @ u '','' @ [10]
              @ u ''  \"mode\": '' @ encode_basestring_ascii (mode img) @ u '','' @ [10]
              @ u ''  \"width\": '' @ repr_int (width img) @ u '','' @ [10]
              @ u ''  \"height\": '' @ repr_int (height img) @ [10]
              @ u ''}''))"
    using assms(2)
    by (simp add: extract_content_image [OF assms(1)] image_record_text split: option.splits)
  moreover have "\<forall>px. extract_content
                 (e\<lparr>Image_open := (Image_open e)(file := Inr (img\<lparr>pixels := px\<rparr>))\<rparr>) file
               = extract_content e file"
    using assms(2) by (simp add: extract_content_image [OF assms(1)])
  ultimately show ?thesis by blast
qed

theorem C4_image_record_witness:
  "startswith (file_type example_png) (u ''image/'')
   \<and> Image_open example_env example_png = Inr example_image
   \<and> extract_content example_env example_png =
       ([], Inr (
          u ''{'' @ [10]
          @ u ''  \"document_type\": \"Image\",'' @ [10]
          @ u ''  \"format\": \"PNG\",'' @ [10]
          @ u ''  \"mode\": \"RGB\",'' @ [10]
          @ u ''  \"width\": 10,'' @ [10]
          @ u ''  \"height\": 10'' @ [10]
          @ u ''}''))"
proof -
  have image_type: "startswith (file_type example_png) (u ''image/'')"
    by (simp add: example_png_def u_def)
  have opened: "Image_open example_env example_png = Inr example_image"
    by (simp add: example_env_def)
  show ?thesis
    using C4_image_record [OF image_type opened] image_type opened
    by (simp add: example_image_def encode_basestring_ascii_def escape_ascii_def repr_int_def
        digits.simps u_def)
qed

section \<open>The prompt builder\<close>

text \<open>
  C9: \<open>build_prompt\<close> is a function of the document text alone: the source reads no
  global variable, clock or random source, so the embedding has no other argument.
  Equal document texts yield equal prompts, code point by code point and so byte by
  byte in any encoding; and every prompt is one fixed text before the document text and
  one fixed text after it.
\<close>

theorem C9_build_prompt_deterministic:
  "(document_text1 = document_text2 \<longrightarrow>
      build_prompt document_text1 = build_prompt document_text2)
   \<and> (\<exists>before after. \<forall>document_text.
         build_prompt document_text = before @ document_text @ after)"
proof -
  have "\<exists>before after. \<forall>document_text.
      build_prompt document_text = before @ document_text @ after"
    unfolding build_prompt_def by (rule exI, rule exI, rule allI, rule refl)
  then show ?thesis by simp
qed

theorem C9_build_prompt_deterministic_witness:
  "u ''Invoice'' @ u '' #42'' = u ''Invoice #42''
   \<and> build_prompt (u ''Invoice'' @ u '' #42'') = build_prompt (u ''Invoice #42'')"
proof -
  have same: "u ''Invoice'' @ u '' #42'' = u ''Invoice #42''"
    by (simp add: u_def)
  show ?thesis
    using C9_build_prompt_deterministic [of "u ''Invoice'' @ u '' #42''" "u ''Invoice #42''"] same
    by simp
qed

section \<open>The inference call: requests, results and failures\<close>

lemma converse_events:
  "fst (converse' brt model_id user_message) =
     [Brt_converse
        \<lparr>modelId = model_id,
         messages =
           PList
             [PDict
                [(u ''role'', PStr (u ''user'')),
                 (u ''content'', PList [PDict [(u ''text'', PStr user_message)]])]],
         inferenceConfig =
           PDict
             [(u ''maxTokens'', PInt 8192),
              (u ''temperature'', PFloat (u ''0.5'')),
              (u ''topP'', PFloat (u ''0.9''))]\<rparr>]"
  by (simp add: converse'_def brt_converse_def catch_def bind_def emit_def of_result_def
      py_raise_def ret_def split: sum.splits halt.splits)

lemma converse_raises:
  assumes "fst (converse' brt model_id user_message) = [Brt_converse req]"
    and "brt req = Inl err"
  shows "snd (converse' brt model_id user_message) =
     Inl (Raised (Exn ''RuntimeError'' (u ''Bedrock invocation failed: '' @ exn_str err)))"
proof -
  from assms(1) have "req =
        \<lparr>modelId = model_id,
         messages =
           PList
             [PDict
                [(u ''role'', PStr (u ''user'')),
                 (u ''content'', PList [PDict [(u ''text'', PStr user_message)]])]],
         inferenceConfig =
           PDict
             [(u ''maxTokens'', PInt 8192),
              (u ''temperature'', PFloat (u ''0.5'')),
              (u ''topP'', PFloat (u ''0.9''))]\<rparr>"
    by (simp add: converse_events)
  with assms(2) show ?thesis
    by (simp add: converse'_def brt_converse_def catch_def bind_def emit_def of_result_def
        py_raise_def)
qed

lemma converse_failure_kind:
  assumes "snd (converse' brt model_id user_message) = Inl h"
  shows "\<exists>err. h = Raised (Exn ''RuntimeError'' (u ''Bedrock invocation failed: '' @ exn_str err))"
  using assms
  by (auto simp add: converse'_def brt_converse_def catch_def bind_def emit_def of_result_def
      py_raise_def ret_def split: sum.splits halt.splits)

lemma getitem_Inr:
  "getitem obj key = Inr v \<longleftrightarrow> (\<exists>kvs. obj = PDict kvs \<and> map_of kvs key = Some v)"
  by (cases obj) (auto split: option.splits)

lemma getitem0_Inr:
  "getitem0 obj = Inr v \<longleftrightarrow>
     (\<exists>xs. obj = PList (v # xs)) \<or> (\<exists>c s. obj = PStr (c # s) \<and> v = PStr [c])"
proof (cases obj)
  case (PStr s)
  then show ?thesis by (cases s) auto
next
  case (PList xs)
  then show ?thesis by (cases xs) auto
qed auto

lemma and_then_Inr:
  "and_then r f = Inr y \<longleftrightarrow> (\<exists>x. r = Inr x \<and> f x = Inr y)"
  by (cases r) (simp_all add: and_then_def)

lemma reply_text_Inr:
  "and_then (and_then (and_then (and_then
      (getitem response (u ''output''))
      (\<lambda>v. getitem v (u ''message'')))
      (\<lambda>v. getitem v (u ''content'')))
      getitem0)
      (\<lambda>v. getitem v (u ''text'')) = Inr t \<longleftrightarrow>
   (\<exists>reply out msg seg segs.
      response = PDict reply
      \<and> map_of reply (u ''output'') = Some (PDict out)
      \<and> map_of out (u ''message'') = Some (PDict msg)
      \<and> map_of msg (u ''content'') = Some (PList (PDict seg # segs))
      \<and> map_of seg (u ''text'') = Some t)"
  by (auto simp add: and_then_Inr getitem_Inr getitem0_Inr)

lemma converse_Inr:
  "snd (converse' brt model_id user_message) = Inr t \<longleftrightarrow>
   (\<exists>response.
      brt \<lparr>modelId = model_id,
         messages =
           PList
             [PDict
                [(u ''role'', PStr (u ''user'')),
                 (u ''content'', PList [PDict [(u ''text'', PStr user_message)]])]],
         inferenceConfig =
           PDict
             [(u ''maxTokens'', PInt 8192),
              (u ''temperature'', PFloat (u ''0.5'')),
              (u ''topP'', PFloat (u ''0.9''))]\<rparr> = Inr response
      \<and> and_then (and_then (and_then (and_then
            (getitem response (u ''output''))
            (\<lambda>v. getitem v (u ''message'')))
            (\<lambda>v. getitem v (u ''content'')))
            getitem0)
            (\<lambda>v. getitem v (u ''text'')) = Inr t)"
  by (auto simp add: converse'_def brt_converse_def catch_def bind_def emit_def of_result_def
      py_raise_def ret_def split: sum.splits halt.splits)

text \<open>
  C6: when the call of the inference service raises an exception, \<open>converse\<close> raises
  a \<open>RuntimeError\<close> whose text is \<open>Bedrock invocation failed: \<close> followed by the
  text of that exception; and whatever makes \<open>converse\<close> fail, the call or the shape
  of the reply, the caller sees a \<open>RuntimeError\<close> of this one form.
\<close>

theorem C6_invocation_failed:
  assumes "fst (converse' brt model_id user_message) = [Brt_converse req]"
    and "brt req = Inl err"
  shows "converse' brt model_id user_message =
           ([Brt_converse req],
            Inl (Raised (Exn ''RuntimeError''
              (u ''Bedrock invocation failed: '' @ exn_str err))))
         \<and> (\<forall>brt' h. snd (converse' brt' model_id user_message) = Inl h \<longrightarrow>
              (\<exists>cause. h = Raised (Exn ''RuntimeError''
                 (u ''Bedrock invocation failed: '' @ exn_str cause))))"
proof -
  have "snd (converse' brt model_id user_message) =
      Inl (Raised (Exn ''RuntimeError'' (u ''Bedrock invocation failed: '' @ exn_str err)))"
    using assms by (rule converse_raises)
  with assms(1) have "converse' brt model_id user_message =
      ([Brt_converse req],
       Inl (Raised (Exn ''RuntimeError'' (u ''Bedrock invocation failed: '' @ exn_str err))))"
    by (simp add: prod_eq_iff)
  then show ?thesis
    by (simp add: converse_failure_kind)
qed

theorem C6_invocation_failed_witness:
  "converse' denied_client MODEL_ID (u ''Hello'') =
     ([Brt_converse
         \<lparr>modelId = MODEL_ID,
          messages =
            PList
              [PDict
                 [(u ''role'', PStr (u ''user'')),
                  (u ''content'', PList [PDict [(u ''text'', PStr (u ''Hello''))]])]],
          inferenceConfig =
            PDict
              [(u ''maxTokens'', PInt 8192),
               (u ''temperature'', PFloat (u ''0.5'')),
               (u ''topP'', PFloat (u ''0.9''))]\<rparr>],
      Inl (Raised (Exn ''RuntimeError''
        (u ''Bedrock invocation failed: AccessDeniedException''))))"
proof -
  have sent: "fst (converse' denied_client MODEL_ID (u ''Hello'')) =
     [Brt_converse
         \<lparr>modelId = MODEL_ID,
          messages =
            PList
              [PDict
                 [(u ''role'', PStr (u ''user'')),
                  (u ''content'', PList [PDict [(u ''text'', PStr (u ''Hello''))]])]],
          inferenceConfig =
            PDict
              [(u ''maxTokens'', PInt 8192),
               (u ''temperature'', PFloat (u ''0.5'')),
               (u ''topP'', PFloat (u ''0.9''))]\<rparr>]"
    by (rule converse_events)
  have raised: "denied_client
         \<lparr>modelId = MODEL_ID,
          messages =
            PList
              [PDict
                 [(u ''role'', PStr (u ''user'')),
                  (u ''content'', PList [PDict [(u ''text'', PStr (u ''Hello''))]])]],
          inferenceConfig =
            PDict
              [(u ''maxTokens'', PInt 8192),
               (u ''temperature'', PFloat (u ''0.5'')),
               (u ''topP'', PFloat (u ''0.9''))]\<rparr>
       = Inl (Exn ''ClientError'' (u ''AccessDeniedException''))"
    by (simp add: denied_client_def)
  show ?thesis
    using C6_invocation_failed [OF sent raised] by (simp add: u_def)
qed

text \<open>
  C7: for every prompt and every client, \<open>converse\<close> sends one request, whose messages
  are a single turn of role \<open>user\<close> with the prompt as its one text segment and whose
  inference configuration is \<open>maxTokens\<close> 8192, \<open>temperature\<close> 0.5, \<open>topP\<close> 0.9; and it
  returns a result exactly when the reply is an object whose output message has a
  content list that starts with a segment with a text, and the result is that text.
\<close>

theorem C7_one_request_first_text:
  "fst (converse' brt model_id prompt) =
     [Brt_converse
         \<lparr>modelId = model_id,
          messages =
            PList
              [PDict
                 [(u ''role'', PStr (u ''user'')),
                  (u ''content'', PList [PDict [(u ''text'', PStr prompt)]])]],
          inferenceConfig =
            PDict
              [(u ''maxTokens'', PInt 8192),
               (u ''temperature'', PFloat (u ''0.5'')),
               (u ''topP'', PFloat (u ''0.9''))]\<rparr>]
   \<and> (snd (converse' brt model_id prompt) = Inr t \<longleftrightarrow>
       (\<exists>reply out msg seg segs.
          brt
         \<lparr>modelId = model_id,
          messages =
            PList
              [PDict
                 [(u ''role'', PStr (u ''user'')),
                  (u ''content'', PList [PDict [(u ''text'', PStr prompt)]])]],
          inferenceConfig =
            PDict
              [(u ''maxTokens'', PInt 8192),
               (u ''temperature'', PFloat (u ''0.5'')),
               (u ''topP'', PFloat (u ''0.9''))]\<rparr>
            = Inr (PDict reply)
          \<and> map_of reply (u ''output'') = Some (PDict out)
          \<and> map_of out (u ''message'') = Some (PDict msg)
          \<and> map_of msg (u ''content'') = Some (PList (PDict seg # segs))
          \<and> map_of seg (u ''text'') = Some t))"
  by (auto simp add: converse_events converse_Inr reply_text_Inr)

theorem C7_one_request_first_text_witness:
  "converse' (\<lambda>r. Inr (reply_with example_text)) MODEL_ID (u ''Hello'') =
     ([Brt_converse
         \<lparr>modelId = MODEL_ID,
          messages =
            PList
              [PDict
                 [(u ''role'', PStr (u ''user'')),
                  (u ''content'', PList [PDict [(u ''text'', PStr (u ''Hello''))]])]],
          inferenceConfig =
            PDict
              [(u ''maxTokens'', PInt 8192),
               (u ''temperature'', PFloat (u ''0.5'')),
               (u ''topP'', PFloat (u ''0.9''))]\<rparr>],
      Inr (PStr example_text))"
proof -
  have "snd (converse' (\<lambda>r. Inr (reply_with example_text)) MODEL_ID (u ''Hello''))
      = Inr (PStr example_text)"
    using C7_one_request_first_text [of "\<lambda>r. Inr (reply_with example_text)" MODEL_ID
        "u ''Hello''" "PStr example_text"]
    by (simp add: reply_with_def u_def)
  then show ?thesis
    using C7_one_request_first_text [of "\<lambda>r. Inr (reply_with example_text)" MODEL_ID
        "u ''Hello''" "PStr example_text"]
    by (simp add: prod_eq_iff)
qed

section \<open>The presentation of a parsed reply\<close>

lemma fst_seq_emit: "fst (seq (emit ev) n) = ev # fst n"
  by (simp add: seq_def emit_def bind_def)

lemma seq_st_call_None:
  "st_raises e ev = None \<Longrightarrow> seq (st_call e ev) n = (ev # fst n, snd n)"
  by (simp add: seq_def st_call_def bind_def)

lemma seq_st_call_Some:
  "st_raises e ev = Some err \<Longrightarrow> seq (st_call e ev) n = ([ev], Inl (Raised err))"
  by (simp add: seq_def st_call_def bind_def)

lemma st_call_None: "st_raises e ev = None \<Longrightarrow> st_call e ev = ([ev], Inr ())"
  by (simp add: st_call_def)

lemma calls_emit:
  "fst n = take (length (fst n)) evs \<Longrightarrow>
   fst (seq (emit ev) n) = take (length (fst (seq (emit ev) n))) (ev # evs)"
  by (simp add: fst_seq_emit)

lemma calls_st_call:
  "fst n = take (length (fst n)) evs \<Longrightarrow>
   fst (seq (st_call e ev) n) = take (length (fst (seq (st_call e ev) n))) (ev # evs)"
  by (cases "st_raises e ev") (simp_all add: seq_st_call_None seq_st_call_Some)

lemma calls_last: "fst (st_call e ev) = take (length (fst (st_call e ev))) [ev]"
  by (simp add: st_call_def split: option.splits)

lemma nth_of_calls:
  "xs = take (length xs) ys \<Longrightarrow> i < length xs \<Longrightarrow> xs ! i = ys ! i"
  by (metis nth_take)

lemma present_dict_calls:
  "fst (present e extracted_text (PDict kvs)) =
     take (length (fst (present e extracted_text (PDict kvs))))
      [St_subheader (128204 # u '' Document Summary''),
       St_columns 3,
       St_metric (u ''Domain'') (dict_get kvs (u ''domain'') (PStr (u ''Unknown''))),
       St_metric (u ''Origin'') (dict_get kvs (u ''origin'') (PStr (u ''Unknown''))),
       St_metric (u ''Document Type'') (dict_get kvs (u ''document_type'') (PStr (u ''Unknown''))),
       St_success (dict_get kvs (u ''summary'') (PStr (u ''No summary available''))),
       St_subheader ([9881, 65039] @ u '' ERP Readiness''),
       erp_readiness (dict_get kvs (u ''erp_status'') (PStr (u ''NOT_READY''))),
       St_columns 2,
       St_button (128640 # u '' Send to ERP''),
       St_button (128221 # u '' Mark for Manual Review''),
       St_tabs [128221 # u '' Extracted Text'', 128202 # u '' Transformed Data''],
       St_text_area (u ''Extracted Content'') extracted_text 400,
       St_json (dict_get kvs (u ''transformed_data'') (PDict [])),
       St_download_button (11015 # u '' Download Transformed JSON'')
         (json_dumps (dict_get kvs (u ''transformed_data'') (PDict [])) 2) (u ''transformed_data.json'')
         (u ''application/json'')]"
  unfolding present_def py_get.simps bind_of_result_Inr
  by (intro calls_emit calls_st_call calls_last)

lemma present_dict_accepted:
  assumes "st_raises e (St_metric (u ''Domain'') (dict_get kvs (u ''domain'') (PStr (u ''Unknown'')))) = None"
    and "st_raises e (St_metric (u ''Origin'') (dict_get kvs (u ''origin'') (PStr (u ''Unknown'')))) = None"
    and "st_raises e (St_metric (u ''Document Type'') (dict_get kvs (u ''document_type'') (PStr (u ''Unknown'')))) = None"
    and "st_raises e (St_success (dict_get kvs (u ''summary'') (PStr (u ''No summary available'')))) = None"
    and "st_raises e (St_text_area (u ''Extracted Content'') extracted_text 400) = None"
    and "st_raises e (St_json (dict_get kvs (u ''transformed_data'') (PDict []))) = None"
    and "st_raises e
        (St_download_button (11015 # u '' Download Transformed JSON'')
           (json_dumps (dict_get kvs (u ''transformed_data'') (PDict [])) 2) (u ''transformed_data.json'')
           (u ''application/json'')) = None"
  shows "present e extracted_text (PDict kvs) =
     ([St_subheader (128204 # u '' Document Summary''),
       St_columns 3,
       St_metric (u ''Domain'') (dict_get kvs (u ''domain'') (PStr (u ''Unknown''))),
       St_metric (u ''Origin'') (dict_get kvs (u ''origin'') (PStr (u ''Unknown''))),
       St_metric (u ''Document Type'') (dict_get kvs (u ''document_type'') (PStr (u ''Unknown''))),
       St_success (dict_get kvs (u ''summary'') (PStr (u ''No summary available''))),
       St_subheader ([9881, 65039] @ u '' ERP Readiness''),
       erp_readiness (dict_get kvs (u ''erp_status'') (PStr (u ''NOT_READY''))),
       St_columns 2,
       St_button (128640 # u '' Send to ERP''),
       St_button (128221 # u '' Mark for Manual Review''),
       St_tabs [128221 # u '' Extracted Text'', 128202 # u '' Transformed Data''],
       St_text_area (u ''Extracted Content'') extracted_text 400,
       St_json (dict_get kvs (u ''transformed_data'') (PDict [])),
       St_download_button (11015 # u '' Download Transformed JSON'')
         (json_dumps (dict_get kvs (u ''transformed_data'') (PDict [])) 2) (u ''transformed_data.json'')
         (u ''application/json'')],
      Inr ())"
  using assms
  by (simp add: present_def bind_of_result_Inr seq_st_call_None st_call_None seq_Inr emit_def)

lemma present_dict_reaches:
  assumes "st_raises e (St_metric (u ''Domain'') (dict_get kvs (u ''domain'') (PStr (u ''Unknown'')))) = None"
    and "st_raises e (St_metric (u ''Origin'') (dict_get kvs (u ''origin'') (PStr (u ''Unknown'')))) = None"
    and "st_raises e (St_metric (u ''Document Type'') (dict_get kvs (u ''document_type'') (PStr (u ''Unknown'')))) = None"
    and "st_raises e (St_success (dict_get kvs (u ''summary'') (PStr (u ''No summary available'')))) = None"
  shows "7 < length (fst (present e extracted_text (PDict kvs)))"
  using assms
  by (simp add: present_def bind_of_result_Inr seq_st_call_None fst_seq_emit)

lemma present_not_dict:
  "\<forall>kvs. parsed \<noteq> PDict kvs \<Longrightarrow>
   present e extracted_text parsed =
     ([St_subheader (128204 # u '' Document Summary''), St_columns 3],
      Inl (Raised (Exn ''AttributeError''
       ([39] @ u (type_name parsed) @ [39] @ u '' object has no attribute '' @ [39] @ u ''get''
        @ [39]))))"
  by (cases parsed) (simp_all add: present_def seq_Inr emit_def bind_of_result_Inl)

lemma present_dict_no_error:
  "St_error msg \<notin> set (fst (present e t (PDict kvs)))"
proof -
  let ?calls =
       "[St_subheader (128204 # u '' Document Summary''),
        St_columns 3,
        St_metric (u ''Domain'') (dict_get kvs (u ''domain'') (PStr (u ''Unknown''))),
        St_metric (u ''Origin'') (dict_get kvs (u ''origin'') (PStr (u ''Unknown''))),
        St_metric (u ''Document Type'') (dict_get kvs (u ''document_type'') (PStr (u ''Unknown''))),
        St_success (dict_get kvs (u ''summary'') (PStr (u ''No summary available''))),
        St_subheader ([9881, 65039] @ u '' ERP Readiness''),
        erp_readiness (dict_get kvs (u ''erp_status'') (PStr (u ''NOT_READY''))),
        St_columns 2,
        St_button (128640 # u '' Send to ERP''),
        St_button (128221 # u '' Mark for Manual Review''),
        St_tabs [128221 # u '' Extracted Text'', 128202 # u '' Transformed Data''],
        St_text_area (u ''Extracted Content'') t 400,
        St_json (dict_get kvs (u ''transformed_data'') (PDict [])),
        St_download_button (11015 # u '' Download Transformed JSON'')
          (json_dumps (dict_get kvs (u ''transformed_data'') (PDict [])) 2) (u ''transformed_data.json'')
          (u ''application/json'')]"
  have "St_error msg \<notin> set ?calls"
    by (simp add: erp_readiness_def)
  moreover have "set (fst (present e t (PDict kvs))) \<subseteq> set ?calls"
    by (metis present_dict_calls set_take_subset)
  ultimately show ?thesis by blast
qed

lemma present_events:
  "St_error (u ''No content extracted'') \<notin> set (fst (present e t parsed))"
proof (cases "\<exists>kvs. parsed = PDict kvs")
  case True
  then show ?thesis by (auto simp add: present_dict_no_error)
next
  case False
  then show ?thesis by (simp add: present_not_dict)
qed

lemma example_accepts:
  "st_raises example_env (St_metric label PNone) = None"
  "st_raises example_env (St_metric label (PBool b)) = None"
  "st_raises example_env (St_metric label (PInt i)) = None"
  "st_raises example_env (St_metric label (PFloat r)) = None"
  "st_raises example_env (St_metric label (PStr s)) = None"
  "st_raises example_env (St_success v) = None"
  "st_raises example_env (St_text_area label t h) = None"
  "st_raises example_env (St_json v) = None"
  "st_raises example_env (St_download_button label d f m) = None"
  by (simp_all add: example_env_def)

lemma example_rejects:
  "st_raises example_env (St_metric label (PList xs))
     = Some (Exn ''TypeError'' (u ''not an accepted type''))"
  "st_raises example_env (St_metric label (PDict kvs))
     = Some (Exn ''TypeError'' (u ''not an accepted type''))"
  by (simp_all add: example_env_def)

text \<open>
  A run of the presentation that the user interface ends: the domain of the reply is
  a list, the first metric is rejected, and neither the other fields nor the branch on
  the ERP status are reached.
\<close>

lemma present_rejected_example:
  "present example_env (u ''Dear Sir'')
     (PDict [(u ''domain'', PList [PStr (u ''Finance'')]), (u ''erp_status'', PStr (u ''READY''))]) =
     ([St_subheader (128204 # u '' Document Summary''),
       St_columns 3,
       St_metric (u ''Domain'') (PList [PStr (u ''Finance'')])],
      Inl (Raised (Exn ''TypeError'' (u ''not an accepted type''))))"
  by (simp add: present_def bind_of_result_Inr seq_Inr emit_def seq_st_call_Some
      dict_get_def example_rejects)

text \<open>
  C3 (amended): for every parsed JSON object, every call of the presentation that is
  made shows the field looked up on its own, with the default when the field is absent
  and the value of the object unchanged when it is present; when the user interface
  carries out every call, all six fields are shown and the run ends normally. The
  defaults are \<open>Unknown\<close> for domain, origin and document type,
  \<open>No summary available\<close> for the summary, \<open>NOT_READY\<close> for the ERP status and the
  empty dictionary for the transformed data.
\<close>

theorem C3_defaults_per_field:
  "(\<exists>n. fst (present e extracted_text (PDict kvs)) =
       take n
         [St_subheader (128204 # u '' Document Summary''),
         St_columns 3,
         St_metric (u ''Domain'') (dict_get kvs (u ''domain'') (PStr (u ''Unknown''))),
         St_metric (u ''Origin'') (dict_get kvs (u ''origin'') (PStr (u ''Unknown''))),
         St_metric (u ''Document Type'') (dict_get kvs (u ''document_type'') (PStr (u ''Unknown''))),
         St_success (dict_get kvs (u ''summary'') (PStr (u ''No summary available''))),
         St_subheader ([9881, 65039] @ u '' ERP Readiness''),
         erp_readiness (dict_get kvs (u ''erp_status'') (PStr (u ''NOT_READY''))),
         St_columns 2,
         St_button (128640 # u '' Send to ERP''),
         St_button (128221 # u '' Mark for Manual Review''),
         St_tabs [128221 # u '' Extracted Text'', 128202 # u '' Transformed Data''],
         St_text_area (u ''Extracted Content'') extracted_text 400,
         St_json (dict_get kvs (u ''transformed_data'') (PDict [])),
         St_download_button (11015 # u '' Download Transformed JSON'')
           (json_dumps (dict_get kvs (u ''transformed_data'') (PDict [])) 2) (u ''transformed_data.json'')
           (u ''application/json'')]
      \<and> (st_raises e (St_metric (u ''Domain'') (dict_get kvs (u ''domain'') (PStr (u ''Unknown'')))) = None
        \<and> st_raises e (St_metric (u ''Origin'') (dict_get kvs (u ''origin'') (PStr (u ''Unknown'')))) = None
        \<and> st_raises e (St_metric (u ''Document Type'') (dict_get kvs (u ''document_type'') (PStr (u ''Unknown'')))) = None
        \<and> st_raises e (St_success (dict_get kvs (u ''summary'') (PStr (u ''No summary available'')))) = None
        \<and> st_raises e (St_text_area (u ''Extracted Content'') extracted_text 400) = None
        \<and> st_raises e (St_json (dict_get kvs (u ''transformed_data'') (PDict []))) = None
        \<and> st_raises e
            (St_download_button (11015 # u '' Download Transformed JSON'')
               (json_dumps (dict_get kvs (u ''transformed_data'') (PDict [])) 2) (u ''transformed_data.json'')
               (u ''application/json'')) = None \<longrightarrow>
          n = 15 \<and> snd (present e extracted_text (PDict kvs)) = Inr ()))
   \<and> (map_of kvs field = None \<longrightarrow> dict_get kvs field dflt = dflt)
   \<and> (map_of kvs field = Some v \<longrightarrow> dict_get kvs field dflt = v)"
proof -
  have "st_raises e (St_metric (u ''Domain'') (dict_get kvs (u ''domain'') (PStr (u ''Unknown'')))) = None
        \<and> st_raises e (St_metric (u ''Origin'') (dict_get kvs (u ''origin'') (PStr (u ''Unknown'')))) = None
        \<and> st_raises e (St_metric (u ''Document Type'') (dict_get kvs (u ''document_type'') (PStr (u ''Unknown'')))) = None
        \<and> st_raises e (St_success (dict_get kvs (u ''summary'') (PStr (u ''No summary available'')))) = None
        \<and> st_raises e (St_text_area (u ''Extracted Content'') extracted_text 400) = None
        \<and> st_raises e (St_json (dict_get kvs (u ''transformed_data'') (PDict []))) = None
        \<and> st_raises e
            (St_download_button (11015 # u '' Download Transformed JSON'')
               (json_dumps (dict_get kvs (u ''transformed_data'') (PDict [])) 2) (u ''transformed_data.json'')
               (u ''application/json'')) = None \<longrightarrow>
          length (fst (present e extracted_text (PDict kvs))) = 15
          \<and> snd (present e extracted_text (PDict kvs)) = Inr ()"
    by (simp add: present_dict_accepted)
  then have "\<exists>n. fst (present e extracted_text (PDict kvs)) =
       take n
         [St_subheader (128204 # u '' Document Summary''),
         St_columns 3,
         St_metric (u ''Domain'') (dict_get kvs (u ''domain'') (PStr (u ''Unknown''))),
         St_metric (u ''Origin'') (dict_get kvs (u ''origin'') (PStr (u ''Unknown''))),
         St_metric (u ''Document Type'') (dict_get kvs (u ''document_type'') (PStr (u ''Unknown''))),
         St_success (dict_get kvs (u ''summary'') (PStr (u ''No summary available''))),
         St_subheader ([9881, 65039] @ u '' ERP Readiness''),
         erp_readiness (dict_get kvs (u ''erp_status'') (PStr (u ''NOT_READY''))),
         St_columns 2,
         St_button (128640 # u '' Send to ERP''),
         St_button (128221 # u '' Mark for Manual Review''),
         St_tabs [128221 # u '' Extracted Text'', 128202 # u '' Transformed Data''],
         St_text_area (u ''Extracted Content'') extracted_text 400,
         St_json (dict_get kvs (u ''transformed_data'') (PDict [])),
         St_download_button (11015 # u '' Download Transformed JSON'')
           (json_dumps (dict_get kvs (u ''transformed_data'') (PDict [])) 2) (u ''transformed_data.json'')
           (u ''application/json'')]
      \<and> (st_raises e (St_metric (u ''Domain'') (dict_get kvs (u ''domain'') (PStr (u ''Unknown'')))) = None
        \<and> st_raises e (St_metric (u ''Origin'') (dict_get kvs (u ''origin'') (PStr (u ''Unknown'')))) = None
        \<and> st_raises e (St_metric (u ''Document Type'') (dict_get kvs (u ''document_type'') (PStr (u ''Unknown'')))) = None
        \<and> st_raises e (St_success (dict_get kvs (u ''summary'') (PStr (u ''No summary available'')))) = None
        \<and> st_raises e (St_text_area (u ''Extracted Content'') extracted_text 400) = None
        \<and> st_raises e (St_json (dict_get kvs (u ''transformed_data'') (PDict []))) = None
        \<and> st_raises e
            (St_download_button (11015 # u '' Download Transformed JSON'')
               (json_dumps (dict_get kvs (u ''transformed_data'') (PDict [])) 2) (u ''transformed_data.json'')
               (u ''application/json'')) = None \<longrightarrow>
          n = 15 \<and> snd (present e extracted_text (PDict kvs)) = Inr ())"
    using present_dict_calls [of e extracted_text kvs] by blast
  then show ?thesis by (simp add: dict_get_def)
qed

theorem C3_defaults_per_field_witness:
  "map_of [(u ''summary'', PStr (u ''A letter'')), (u ''origin'', PInt 7)] (u ''domain'') = None
   \<and> map_of [(u ''summary'', PStr (u ''A letter'')), (u ''origin'', PInt 7)] (u ''origin'') = Some (PInt 7)
   \<and> present example_env (u ''Dear Sir'') (PDict [(u ''summary'', PStr (u ''A letter'')), (u ''origin'', PInt 7)]) =
     ([St_subheader (128204 # u '' Document Summary''),
         St_columns 3,
         St_metric (u ''Domain'') (PStr (u ''Unknown'')),
         St_metric (u ''Origin'') (PInt 7),
         St_metric (u ''Document Type'') (PStr (u ''Unknown'')),
         St_success (PStr (u ''A letter'')),
         St_subheader ([9881, 65039] @ u '' ERP Readiness''),
         St_warning (9203 # u '' Needs Manual Review Before ERP Load''),
         St_columns 2,
         St_button (128640 # u '' Send to ERP''),
         St_button (128221 # u '' Mark for Manual Review''),
         St_tabs [128221 # u '' Extracted Text'', 128202 # u '' Transformed Data''],
         St_text_area (u ''Extracted Content'') (u ''Dear Sir'') 400,
         St_json (PDict []),
         St_download_button (11015 # u '' Download Transformed JSON'')
           (u ''{}'') (u ''transformed_data.json'')
           (u ''application/json'')],
      Inr ())"
proof -
  have absent: "map_of [(u ''summary'', PStr (u ''A letter'')), (u ''origin'', PInt 7)] (u ''domain'') = None"
    and given: "map_of [(u ''summary'', PStr (u ''A letter'')), (u ''origin'', PInt 7)] (u ''origin'') = Some (PInt 7)"
    by (simp_all add: u_def)
  have gets:
    "dict_get [(u ''summary'', PStr (u ''A letter'')), (u ''origin'', PInt 7)] (u ''domain'') (PStr (u ''Unknown'')) = PStr (u ''Unknown'')"
    "dict_get [(u ''summary'', PStr (u ''A letter'')), (u ''origin'', PInt 7)] (u ''origin'') (PStr (u ''Unknown'')) = PInt 7"
    "dict_get [(u ''summary'', PStr (u ''A letter'')), (u ''origin'', PInt 7)] (u ''document_type'') (PStr (u ''Unknown'')) = PStr (u ''Unknown'')"
    "dict_get [(u ''summary'', PStr (u ''A letter'')), (u ''origin'', PInt 7)] (u ''summary'') (PStr (u ''No summary available'')) = PStr (u ''A letter'')"
    "dict_get [(u ''summary'', PStr (u ''A letter'')), (u ''origin'', PInt 7)] (u ''erp_status'') (PStr (u ''NOT_READY'')) = PStr (u ''NOT_READY'')"
    "dict_get [(u ''summary'', PStr (u ''A letter'')), (u ''origin'', PInt 7)] (u ''transformed_data'') (PDict []) = PDict []"
    by (simp_all add: dict_get_def u_def)
  have branch: "erp_readiness (PStr (u ''NOT_READY'')) = St_warning (9203 # u '' Needs Manual Review Before ERP Load'')"
    by (simp add: erp_readiness_def u_def)
  have dumps: "json_dumps (PDict []) 2 = u ''{}''"
    by (simp add: json_dumps_def)
  from C3_defaults_per_field [of example_env "u ''Dear Sir''" "[(u ''summary'', PStr (u ''A letter'')), (u ''origin'', PInt 7)]" "u ''domain''"
      "PStr (u ''Unknown'')" "PInt 7"]
  obtain n where
    "fst (present example_env (u ''Dear Sir'') (PDict [(u ''summary'', PStr (u ''A letter'')), (u ''origin'', PInt 7)])) =
       take n
         [St_subheader (128204 # u '' Document Summary''),
         St_columns 3,
         St_metric (u ''Domain'') (PStr (u ''Unknown'')),
         St_metric (u ''Origin'') (PInt 7),
         St_metric (u ''Document Type'') (PStr (u ''Unknown'')),
         St_success (PStr (u ''A letter'')),
         St_subheader ([9881, 65039] @ u '' ERP Readiness''),
         St_warning (9203 # u '' Needs Manual Review Before ERP Load''),
         St_columns 2,
         St_button (128640 # u '' Send to ERP''),
         St_button (128221 # u '' Mark for Manual Review''),
         St_tabs [128221 # u '' Extracted Text'', 128202 # u '' Transformed Data''],
         St_text_area (u ''Extracted Content'') (u ''Dear Sir'') 400,
         St_json (PDict []),
         St_download_button (11015 # u '' Download Transformed JSON'')
           (u ''{}'') (u ''transformed_data.json'')
           (u ''application/json'')]"
    and "n = 15 \<and> snd (present example_env (u ''Dear Sir'') (PDict [(u ''summary'', PStr (u ''A letter'')), (u ''origin'', PInt 7)])) = Inr ()"
    unfolding gets branch dumps by (auto simp add: example_accepts)
  then have "present example_env (u ''Dear Sir'') (PDict [(u ''summary'', PStr (u ''A letter'')), (u ''origin'', PInt 7)]) =
     ([St_subheader (128204 # u '' Document Summary''),
         St_columns 3,
         St_metric (u ''Domain'') (PStr (u ''Unknown'')),
         St_metric (u ''Origin'') (PInt 7),
         St_metric (u ''Document Type'') (PStr (u ''Unknown'')),
         St_success (PStr (u ''A letter'')),
         St_subheader ([9881, 65039] @ u '' ERP Readiness''),
         St_warning (9203 # u '' Needs Manual Review Before ERP Load''),
         St_columns 2,
         St_button (128640 # u '' Send to ERP''),
         St_button (128221 # u '' Mark for Manual Review''),
         St_tabs [128221 # u '' Extracted Text'', 128202 # u '' Transformed Data''],
         St_text_area (u ''Extracted Content'') (u ''Dear Sir'') 400,
         St_json (PDict []),
         St_download_button (11015 # u '' Download Transformed JSON'')
           (u ''{}'') (u ''transformed_data.json'')
           (u ''application/json'')],
      Inr ())"
    by (simp add: prod_eq_iff)
  with absent given show ?thesis by simp
qed

text \<open>
  C10: in every run of the presentation that reaches the branch, the event that follows
  the subheader of the ERP readiness is the message of the ready path exactly when the
  ERP status, looked up with the default \<open>NOT_READY\<close>, is the string \<open>READY\<close>; for
  every other status, and so when the field is absent, it is the warning of the manual
  review. The run reaches the branch when the user interface carries out the four
  calls before it.
\<close>

theorem C10_erp_branch:
  "(7 < length (fst (present e extracted_text (PDict kvs))) \<longrightarrow>
      fst (present e extracted_text (PDict kvs)) ! 6 = St_subheader ([9881, 65039] @ u '' ERP Readiness'')
      \<and> fst (present e extracted_text (PDict kvs)) ! 7 =
          (if dict_get kvs (u ''erp_status'') (PStr (u ''NOT_READY'')) = PStr (u ''READY'')
           then St_success (PStr (9989 # u '' Ready to Load ERP Service''))
           else St_warning (9203 # u '' Needs Manual Review Before ERP Load'')))
   \<and> (7 < length (fst (present e extracted_text (PDict kvs))) \<longrightarrow>
        (fst (present e extracted_text (PDict kvs)) ! 7 = St_success (PStr (9989 # u '' Ready to Load ERP Service''))
         \<longleftrightarrow> dict_get kvs (u ''erp_status'') (PStr (u ''NOT_READY'')) = PStr (u ''READY'')))
   \<and> (7 < length (fst (present e extracted_text (PDict kvs))) \<and> map_of kvs (u ''erp_status'') = None \<longrightarrow>
        fst (present e extracted_text (PDict kvs)) ! 7 = St_warning (9203 # u '' Needs Manual Review Before ERP Load''))
   \<and> (st_raises e (St_metric (u ''Domain'') (dict_get kvs (u ''domain'') (PStr (u ''Unknown'')))) = None
        \<and> st_raises e (St_metric (u ''Origin'') (dict_get kvs (u ''origin'') (PStr (u ''Unknown'')))) = None
        \<and> st_raises e (St_metric (u ''Document Type'') (dict_get kvs (u ''document_type'') (PStr (u ''Unknown'')))) = None
        \<and> st_raises e (St_success (dict_get kvs (u ''summary'') (PStr (u ''No summary available'')))) = None \<longrightarrow>
        7 < length (fst (present e extracted_text (PDict kvs))))"
proof -
  have branch: "fst (present e extracted_text (PDict kvs)) ! 6 = St_subheader ([9881, 65039] @ u '' ERP Readiness'')
      \<and> fst (present e extracted_text (PDict kvs)) ! 7 =
          (if dict_get kvs (u ''erp_status'') (PStr (u ''NOT_READY'')) = PStr (u ''READY'')
           then St_success (PStr (9989 # u '' Ready to Load ERP Service''))
           else St_warning (9203 # u '' Needs Manual Review Before ERP Load''))"
    if reached: "7 < length (fst (present e extracted_text (PDict kvs)))"
  proof -
    from reached have "6 < length (fst (present e extracted_text (PDict kvs)))"
      by simp
    then show ?thesis
      using nth_of_calls [OF present_dict_calls, of 6 e extracted_text kvs]
        nth_of_calls [OF present_dict_calls reached]
      by (simp add: erp_readiness_def)
  qed
  have absent: "dict_get kvs (u ''erp_status'') (PStr (u ''NOT_READY'')) = PStr (u ''NOT_READY'')"
    if "map_of kvs (u ''erp_status'') = None"
    using that by (simp add: dict_get_def)
  have differ: "PStr (u ''NOT_READY'') \<noteq> PStr (u ''READY'')"
    by (simp add: u_def)
  show ?thesis
    using branch absent differ present_dict_reaches [of e kvs extracted_text] by auto
qed

theorem C10_erp_branch_witness:
  "map_of [(u ''summary'', PStr (u ''A letter''))] (u ''erp_status'') = None
   \<and> 7 < length (fst (present example_env (u ''Dear Sir'')
           (PDict [(u ''summary'', PStr (u ''A letter''))])))
   \<and> fst (present example_env (u ''Dear Sir'')
           (PDict [(u ''summary'', PStr (u ''A letter''))])) ! 7 = St_warning (9203 # u '' Needs Manual Review Before ERP Load'')
   \<and> 7 < length (fst (present example_env (u ''Dear Sir'')
           (PDict [(u ''erp_status'', PStr (u ''READY''))])))
   \<and> fst (present example_env (u ''Dear Sir'')
           (PDict [(u ''erp_status'', PStr (u ''READY''))])) ! 7 = St_success (PStr (9989 # u '' Ready to Load ERP Service''))
   \<and> 7 < length (fst (present example_env (u ''Dear Sir'')
           (PDict [(u ''erp_status'', PStr (u ''ready''))])))
   \<and> fst (present example_env (u ''Dear Sir'')
           (PDict [(u ''erp_status'', PStr (u ''ready''))])) ! 7 = St_warning (9203 # u '' Needs Manual Review Before ERP Load'')"
proof -
  have absent: "map_of [(u ''summary'', PStr (u ''A letter''))] (u ''erp_status'') = None"
    by (simp add: u_def)
  have letter:
    "7 < length (fst (present example_env (u ''Dear Sir'')
           (PDict [(u ''summary'', PStr (u ''A letter''))])))
     \<and> fst (present example_env (u ''Dear Sir'')
           (PDict [(u ''summary'', PStr (u ''A letter''))])) ! 7 = St_warning (9203 # u '' Needs Manual Review Before ERP Load'')"
    using C10_erp_branch [of example_env "u ''Dear Sir''"
        "[(u ''summary'', PStr (u ''A letter''))]"] absent
    by (simp add: dict_get_def example_accepts u_def)
  have ready:
    "7 < length (fst (present example_env (u ''Dear Sir'')
           (PDict [(u ''erp_status'', PStr (u ''READY''))])))
     \<and> fst (present example_env (u ''Dear Sir'')
           (PDict [(u ''erp_status'', PStr (u ''READY''))])) ! 7 = St_success (PStr (9989 # u '' Ready to Load ERP Service''))"
    using C10_erp_branch [of example_env "u ''Dear Sir''"
        "[(u ''erp_status'', PStr (u ''READY''))]"]
    by (simp add: dict_get_def example_accepts u_def)
  have lower:
    "7 < length (fst (present example_env (u ''Dear Sir'')
           (PDict [(u ''erp_status'', PStr (u ''ready''))])))
     \<and> fst (present example_env (u ''Dear Sir'')
           (PDict [(u ''erp_status'', PStr (u ''ready''))])) ! 7 = St_warning (9203 # u '' Needs Manual Review Before ERP Load'')"
    using C10_erp_branch [of example_env "u ''Dear Sir''"
        "[(u ''erp_status'', PStr (u ''ready''))]"]
    by (simp add: dict_get_def example_accepts u_def)
  from absent letter ready lower show ?thesis by simp
qed

section \<open>The whole run\<close>

lemma interpret_response_Inr:
  "json_loads e r = Inr parsed \<Longrightarrow> interpret_response e r = ([], Inr parsed)"
  by (simp add: interpret_response_def catch_def of_result_def ret_def)

lemma interpret_response_Inl:
  "json_loads e r = Inl err \<Longrightarrow>
   interpret_response e r =
     ([St_error (u ''Failed to process document''), St_text (PStr (exn_str err)), St_text r],
      Inl Stopped)"
  by (simp add: interpret_response_def catch_def of_result_def py_raise_def failed_def
      seq_Inr emit_def st_stop_def)

lemma process_parsed:
  assumes "extract_content e file = (evs1, Inr extracted_text)"
    and "invoke e (build_prompt extracted_text) = (evs2, Inr llm_response)"
    and "json_loads e llm_response = Inr parsed"
  shows "process e file =
     (St_spinner (u ''Processing document using CTD's Gen AI...'')
        # evs1 @ evs2 @ fst (present e extracted_text parsed),
      snd (present e extracted_text parsed))"
  using assms
  by (simp add: process_def seq_Inr emit_def bind_Inr interpret_response_Inr)

lemma example_extract:
  "extract_content example_env example_pdf = ([], Inr (u ''Invoice #42,\<newline>Total $100''))"
  by (simp add: extract_content_def example_env_def example_pdf_def extract_text_from_pdf_def
      bind_of_result_Inr strip_def lstrip_def rstrip_def isspace_def u_def ret_def)

lemma example_invoke:
  "invoke example_env prompt =
     ([Brt_converse
         \<lparr>modelId = MODEL_ID,
          messages =
            PList
              [PDict
                 [(u ''role'', PStr (u ''user'')),
                  (u ''content'', PList [PDict [(u ''text'', PStr prompt)]])]],
          inferenceConfig =
            PDict
              [(u ''maxTokens'', PInt 8192),
               (u ''temperature'', PFloat (u ''0.5'')),
               (u ''topP'', PFloat (u ''0.9''))]\<rparr>],
      Inr (PStr example_text))"
  by (simp add: invoke_def get_bedrock_client_def example_env_def bind_of_result_Inr
      converse'_def brt_converse_def bind_def emit_def of_result_def ret_def catch_def
      reply_with_def and_then_def u_def)

text \<open>
  C2: when the reply of the model parses as a JSON object that has all six keys, every
  call of the presentation that is made carries exactly the value of the object for
  its field: the three metrics, the summary, the branch on the ERP status, the
  transformed data and its serialisation; when the user interface carries out every
  call, all of them are made and the run ends normally.
\<close>

theorem C2_fields_pass_through:
  assumes "extract_content e file = (evs1, Inr extracted_text)"
    and "invoke e (build_prompt extracted_text) = (evs2, Inr llm_response)"
    and "json_loads e llm_response = Inr (PDict kvs)"
    and "map_of kvs (u ''summary'') = Some summary"
    and "map_of kvs (u ''domain'') = Some domain"
    and "map_of kvs (u ''origin'') = Some origin"
    and "map_of kvs (u ''document_type'') = Some document_type"
    and "map_of kvs (u ''erp_status'') = Some erp_status"
    and "map_of kvs (u ''transformed_data'') = Some transformed_data"
  shows "\<exists>n. fst (process e file) =
           St_spinner (u ''Processing document using CTD's Gen AI...'') # evs1 @ evs2
           @ take n
               [St_subheader (128204 # u '' Document Summary''),
          St_columns 3,
          St_metric (u ''Domain'') domain,
          St_metric (u ''Origin'') origin,
          St_metric (u ''Document Type'') document_type,
          St_success summary,
          St_subheader ([9881, 65039] @ u '' ERP Readiness''),
          (erp_readiness erp_status),
          St_columns 2,
          St_button (128640 # u '' Send to ERP''),
          St_button (128221 # u '' Mark for Manual Review''),
          St_tabs [128221 # u '' Extracted Text'', 128202 # u '' Transformed Data''],
          St_text_area (u ''Extracted Content'') extracted_text 400,
          St_json transformed_data,
          St_download_button (11015 # u '' Download Transformed JSON'')
            (json_dumps transformed_data 2) (u ''transformed_data.json'')
            (u ''application/json'')]
         \<and> (st_raises e (St_metric (u ''Domain'') domain) = None
            \<and> st_raises e (St_metric (u ''Origin'') origin) = None
            \<and> st_raises e (St_metric (u ''Document Type'') document_type) = None
            \<and> st_raises e (St_success summary) = None
            \<and> st_raises e (St_text_area (u ''Extracted Content'') extracted_text 400) = None
            \<and> st_raises e (St_json transformed_data) = None
            \<and> st_raises e
            (St_download_button (11015 # u '' Download Transformed JSON'')
               (json_dumps transformed_data 2) (u ''transformed_data.json'')
               (u ''application/json'')) = None \<longrightarrow>
             n = 15 \<and> snd (process e file) = Inr ())"
proof -
  have gets:
    "dict_get kvs (u ''summary'') (PStr (u ''No summary available'')) = summary"
    "dict_get kvs (u ''domain'') (PStr (u ''Unknown'')) = domain"
    "dict_get kvs (u ''origin'') (PStr (u ''Unknown'')) = origin"
    "dict_get kvs (u ''document_type'') (PStr (u ''Unknown'')) = document_type"
    "dict_get kvs (u ''erp_status'') (PStr (u ''NOT_READY'')) = erp_status"
    "dict_get kvs (u ''transformed_data'') (PDict []) = transformed_data"
    using assms(4-9) by (simp_all add: dict_get_def)
  have whole: "process e file =
      (St_spinner (u ''Processing document using CTD's Gen AI...'') # evs1 @ evs2
         @ fst (present e extracted_text (PDict kvs)),
       snd (present e extracted_text (PDict kvs)))"
    using assms(1-3) by (rule process_parsed)
  have calls: "fst (present e extracted_text (PDict kvs)) =
      take (length (fst (present e extracted_text (PDict kvs))))
               [St_subheader (128204 # u '' Document Summary''),
          St_columns 3,
          St_metric (u ''Domain'') domain,
          St_metric (u ''Origin'') origin,
          St_metric (u ''Document Type'') document_type,
          St_success summary,
          St_subheader ([9881, 65039] @ u '' ERP Readiness''),
          (erp_readiness erp_status),
          St_columns 2,
          St_button (128640 # u '' Send to ERP''),
          St_button (128221 # u '' Mark for Manual Review''),
          St_tabs [128221 # u '' Extracted Text'', 128202 # u '' Transformed Data''],
          St_text_area (u ''Extracted Content'') extracted_text 400,
          St_json transformed_data,
          St_download_button (11015 # u '' Download Transformed JSON'')
            (json_dumps transformed_data 2) (u ''transformed_data.json'')
            (u ''application/json'')]"
    using present_dict_calls [of e extracted_text kvs] unfolding gets .
  have complete: "length (fst (present e extracted_text (PDict kvs))) = 15
      \<and> snd (present e extracted_text (PDict kvs)) = Inr ()"
    if "st_raises e (St_metric (u ''Domain'') domain) = None
            \<and> st_raises e (St_metric (u ''Origin'') origin) = None
            \<and> st_raises e (St_metric (u ''Document Type'') document_type) = None
            \<and> st_raises e (St_success summary) = None
            \<and> st_raises e (St_text_area (u ''Extracted Content'') extracted_text 400) = None
            \<and> st_raises e (St_json transformed_data) = None
            \<and> st_raises e
            (St_download_button (11015 # u '' Download Transformed JSON'')
               (json_dumps transformed_data 2) (u ''transformed_data.json'')
               (u ''application/json'')) = None"
    using that present_dict_accepted [of e kvs extracted_text] unfolding gets by simp
  show ?thesis
    unfolding whole using calls complete by auto
qed

theorem C2_fields_pass_through_witness:
  "process example_env example_pdf =
     (St_spinner (u ''Processing document using CTD's Gen AI...'') #
      Brt_converse
         \<lparr>modelId = MODEL_ID,
          messages =
            PList
              [PDict
                 [(u ''role'', PStr (u ''user'')),
                  (u ''content'',
                   PList
                     [PDict
                        [(u ''text'',
                          PStr (build_prompt (u ''Invoice #42,\<newline>Total $100'')))]])]],
          inferenceConfig =
            PDict
              [(u ''maxTokens'', PInt 8192),
               (u ''temperature'', PFloat (u ''0.5'')),
               (u ''topP'', PFloat (u ''0.9''))]\<rparr> #
      [St_subheader (128204 # u '' Document Summary''),
         St_columns 3,
         St_metric (u ''Domain'') (PStr (u ''Finance'')),
         St_metric (u ''Origin'') (PStr (u ''US'')),
         St_metric (u ''Document Type'') (PStr (u ''Invoice'')),
         St_success (PStr (u ''Invoice for $100'')),
         St_subheader ([9881, 65039] @ u '' ERP Readiness''),
         St_success (PStr (9989 # u '' Ready to Load ERP Service'')),
         St_columns 2,
         St_button (128640 # u '' Send to ERP''),
         St_button (128221 # u '' Mark for Manual Review''),
         St_tabs [128221 # u '' Extracted Text'', 128202 # u '' Transformed Data''],
         St_text_area (u ''Extracted Content'') (u ''Invoice #42,\<newline>Total $100'') 400,
         St_json example_data,
         St_download_button (11015 # u '' Download Transformed JSON'')
           (json_dumps example_data 2) (u ''transformed_data.json'')
           (u ''application/json'')],
      Inr ())"
proof -
  have loads: "json_loads example_env (PStr example_text) = Inr (PDict example_items)"
    by (simp add: example_env_def)
  have keys:
    "map_of example_items (u ''summary'') = Some (PStr (u ''Invoice for $100''))"
    "map_of example_items (u ''domain'') = Some (PStr (u ''Finance''))"
    "map_of example_items (u ''origin'') = Some (PStr (u ''US''))"
    "map_of example_items (u ''document_type'') = Some (PStr (u ''Invoice''))"
    "map_of example_items (u ''erp_status'') = Some (PStr (u ''READY''))"
    "map_of example_items (u ''transformed_data'') = Some example_data"
    by (simp_all add: example_items_def u_def)
  have branch: "erp_readiness (PStr (u ''READY'')) = St_success (PStr (9989 # u '' Ready to Load ERP Service''))"
    by (simp add: erp_readiness_def)
  from C2_fields_pass_through [OF example_extract example_invoke loads keys]
  obtain n where
    "fst (process example_env example_pdf) =
       St_spinner (u ''Processing document using CTD's Gen AI...'') #
       [Brt_converse
         \<lparr>modelId = MODEL_ID,
          messages =
            PList
              [PDict
                 [(u ''role'', PStr (u ''user'')),
                  (u ''content'',
                   PList
                     [PDict
                        [(u ''text'',
                          PStr (build_prompt (u ''Invoice #42,\<newline>Total $100'')))]])]],
          inferenceConfig =
            PDict
              [(u ''maxTokens'', PInt 8192),
               (u ''temperature'', PFloat (u ''0.5'')),
               (u ''topP'', PFloat (u ''0.9''))]\<rparr>] @
       take n
         [St_subheader (128204 # u '' Document Summary''),
         St_columns 3,
         St_metric (u ''Domain'') (PStr (u ''Finance'')),
         St_metric (u ''Origin'') (PStr (u ''US'')),
         St_metric (u ''Document Type'') (PStr (u ''Invoice'')),
         St_success (PStr (u ''Invoice for $100'')),
         St_subheader ([9881, 65039] @ u '' ERP Readiness''),
         St_success (PStr (9989 # u '' Ready to Load ERP Service'')),
         St_columns 2,
         St_button (128640 # u '' Send to ERP''),
         St_button (128221 # u '' Mark for Manual Review''),
         St_tabs [128221 # u '' Extracted Text'', 128202 # u '' Transformed Data''],
         St_text_area (u ''Extracted Content'') (u ''Invoice #42,\<newline>Total $100'') 400,
         St_json example_data,
         St_download_button (11015 # u '' Download Transformed JSON'')
           (json_dumps example_data 2) (u ''transformed_data.json'')
           (u ''application/json'')]"
    and "n = 15 \<and> snd (process example_env example_pdf) = Inr ()"
    unfolding branch by (auto simp add: example_accepts)
  then show ?thesis
    by (simp add: prod_eq_iff)
qed

lemma empty_object_invoke:
  "invoke empty_object_env prompt =
     ([Brt_converse
         \<lparr>modelId = MODEL_ID,
          messages =
            PList
              [PDict
                 [(u ''role'', PStr (u ''user'')),
                  (u ''content'', PList [PDict [(u ''text'', PStr prompt)]])]],
          inferenceConfig =
            PDict
              [(u ''maxTokens'', PInt 8192),
               (u ''temperature'', PFloat (u ''0.5'')),
               (u ''topP'', PFloat (u ''0.9''))]\<rparr>],
      Inr (PStr (u ''{}'')))"
  by (simp add: invoke_def get_bedrock_client_def empty_object_env_def example_env_def
      bind_of_result_Inr converse'_def brt_converse_def bind_def emit_def of_result_def ret_def
      catch_def reply_with_def and_then_def u_def)

lemma empty_object_extract:
  "extract_content empty_object_env example_pdf =
     ([], Inr (u ''Invoice #42,\<newline>Total $100''))"
  by (simp add: extract_content_def empty_object_env_def example_env_def example_pdf_def
      extract_text_from_pdf_def bind_of_result_Inr strip_def lstrip_def rstrip_def isspace_def
      u_def ret_def)

lemma empty_object_loads: "json_loads empty_object_env (PStr (u ''{}'')) = Inr (PDict [])"
  by (simp add: empty_object_env_def example_env_def example_text_def u_def)

lemma empty_object_accepts: "st_raises empty_object_env = st_raises example_env"
  by (simp add: empty_object_env_def)

text \<open>
  C3, as the specification states it, fails for the summary: when the reply is the
  empty JSON object, so that no field is present, the run shows the sentence
  \<open>No summary available\<close> and nowhere the sentinel \<open>Unknown\<close> as the summary.
\<close>

theorem C3_summary_default_counterexample:
  "process empty_object_env example_pdf =
     (St_spinner (u ''Processing document using CTD's Gen AI...'') #
      Brt_converse
         \<lparr>modelId = MODEL_ID,
          messages =
            PList
              [PDict
                 [(u ''role'', PStr (u ''user'')),
                  (u ''content'',
                   PList
                     [PDict
                        [(u ''text'',
                          PStr (build_prompt (u ''Invoice #42,\<newline>Total $100'')))]])]],
          inferenceConfig =
            PDict
              [(u ''maxTokens'', PInt 8192),
               (u ''temperature'', PFloat (u ''0.5'')),
               (u ''topP'', PFloat (u ''0.9''))]\<rparr> #
      [St_subheader (128204 # u '' Document Summary''),
         St_columns 3,
         St_metric (u ''Domain'') (PStr (u ''Unknown'')),
         St_metric (u ''Origin'') (PStr (u ''Unknown'')),
         St_metric (u ''Document Type'') (PStr (u ''Unknown'')),
         St_success (PStr (u ''No summary available'')),
         St_subheader ([9881, 65039] @ u '' ERP Readiness''),
         St_warning (9203 # u '' Needs Manual Review Before ERP Load''),
         St_columns 2,
         St_button (128640 # u '' Send to ERP''),
         St_button (128221 # u '' Mark for Manual Review''),
         St_tabs [128221 # u '' Extracted Text'', 128202 # u '' Transformed Data''],
         St_text_area (u ''Extracted Content'') (u ''Invoice #42,\<newline>Total $100'') 400,
         St_json (PDict []),
         St_download_button (11015 # u '' Download Transformed JSON'')
           (u ''{}'') (u ''transformed_data.json'')
           (u ''application/json'')],
      Inr ())
   \<and> St_success (PStr (u ''Unknown'')) \<notin> set (fst (process empty_object_env example_pdf))"
proof -
  have run: "process empty_object_env example_pdf =
     (St_spinner (u ''Processing document using CTD's Gen AI...'') #
      Brt_converse
         \<lparr>modelId = MODEL_ID,
          messages =
            PList
              [PDict
                 [(u ''role'', PStr (u ''user'')),
                  (u ''content'',
                   PList
                     [PDict
                        [(u ''text'',
                          PStr (build_prompt (u ''Invoice #42,\<newline>Total $100'')))]])]],
          inferenceConfig =
            PDict
              [(u ''maxTokens'', PInt 8192),
               (u ''temperature'', PFloat (u ''0.5'')),
               (u ''topP'', PFloat (u ''0.9''))]\<rparr> #
      [St_subheader (128204 # u '' Document Summary''),
         St_columns 3,
         St_metric (u ''Domain'') (PStr (u ''Unknown'')),
         St_metric (u ''Origin'') (PStr (u ''Unknown'')),
         St_metric (u ''Document Type'') (PStr (u ''Unknown'')),
         St_success (PStr (u ''No summary available'')),
         St_subheader ([9881, 65039] @ u '' ERP Readiness''),
         St_warning (9203 # u '' Needs Manual Review Before ERP Load''),
         St_columns 2,
         St_button (128640 # u '' Send to ERP''),
         St_button (128221 # u '' Mark for Manual Review''),
         St_tabs [128221 # u '' Extracted Text'', 128202 # u '' Transformed Data''],
         St_text_area (u ''Extracted Content'') (u ''Invoice #42,\<newline>Total $100'') 400,
         St_json (PDict []),
         St_download_button (11015 # u '' Download Transformed JSON'')
           (u ''{}'') (u ''transformed_data.json'')
           (u ''application/json'')],
      Inr ())"
    by (simp add: process_parsed [OF empty_object_extract empty_object_invoke empty_object_loads]
        present_dict_accepted dict_get_def empty_object_accepts example_accepts
        erp_readiness_def json_dumps_def u_def)
  have "St_success (PStr (u ''Unknown'')) \<notin> set (fst (process empty_object_env example_pdf))"
    unfolding run by (simp add: u_def)
  with run show ?thesis by simp
qed





lemma failed_events:
  "fst (failed err r :: 'a run) =
     [St_error (u ''Failed to process document''), St_text (PStr (exn_str err)),
      St_text (case r of None \<Rightarrow> PStr [] | Some v \<Rightarrow> v)]"
  by (simp add: failed_def seq_Inr emit_def st_stop_def)

lemma no_content_neq:
  "u ''Failed to process document'' \<noteq> u ''No content extracted''"
  "u ''No content extracted'' \<noteq> u ''Failed to process document''"
  by (simp_all add: u_def)

lemma invoke_events: "St_error (u ''No content extracted'') \<notin> set (fst (invoke e prompt))"
proof (cases "get_bedrock_client e")
  case (Inl err)
  then show ?thesis
    by (simp add: invoke_def catch_def bind_of_result_Inl failed_events no_content_neq)
next
  case (Inr brt)
  then show ?thesis
    by (simp add: invoke_def catch_def bind_of_result_Inr converse_events failed_events
        no_content_neq split: sum.splits halt.splits)
qed

lemma interpret_response_events:
  "St_error (u ''No content extracted'') \<notin> set (fst (interpret_response e r))"
  by (cases "json_loads e r")
    (simp_all add: interpret_response_Inr interpret_response_Inl no_content_neq)

lemma process_image_events:
  assumes "startswith (file_type file) (u ''image/'')"
  shows "St_error (u ''No content extracted'') \<notin> set (fst (process e file))"
proof -
  have ex: "fst (extract_content e file) = []"
    using assms by (simp add: extract_content_image split: sum.splits)
  have "set (fst (process e file)) \<subseteq>
      {St_spinner (u ''Processing document using CTD's Gen AI...'')}
      \<union> (\<Union>t. set (fst (invoke e t)))
      \<union> (\<Union>r. set (fst (interpret_response e r)))
      \<union> (\<Union>t p. set (fst (present e t p)))"
    unfolding process_def seq_def emit_def
    using ex by (auto simp add: bind_def split: sum.splits)
  then show ?thesis
    using invoke_events interpret_response_events present_events by auto
qed

text \<open>
  C8: when the PDF path yields the empty string, the run shows the empty-content error
  and stops; its effects are the spinner and that error, so no prompt is built and no
  request is sent. For a file of an image type the extraction shows nothing, never
  stops the run and never yields the empty string: the record always has text; and the
  empty-content error is not among the effects of the whole run.
\<close>

theorem C8_empty_content_guard:
  "(file_type file = u ''application/pdf'' \<and> extract_text_from_pdf e file = Inr [] \<longrightarrow>
      process e file =
        ([St_spinner (u ''Processing document using CTD's Gen AI...''),
          St_error (u ''No content extracted'')],
         Inl Stopped))
   \<and> (startswith (file_type file) (u ''image/'') \<longrightarrow>
        fst (extract_content e file) = []
        \<and> snd (extract_content e file) \<noteq> Inl Stopped
        \<and> snd (extract_content e file) \<noteq> Inr []
        \<and> St_error (u ''No content extracted'') \<notin> set (fst (process e file)))"
proof -
  have "process e file =
        ([St_spinner (u ''Processing document using CTD's Gen AI...''),
          St_error (u ''No content extracted'')],
         Inl Stopped)"
    if "file_type file = u ''application/pdf''" and "extract_text_from_pdf e file = Inr []"
    using that
    by (simp add: process_def extract_content_def seq_Inr emit_def bind_of_result_Inr
        st_stop_def bind_Inl)
  moreover have "fst (extract_content e file) = []
        \<and> snd (extract_content e file) \<noteq> Inl Stopped
        \<and> snd (extract_content e file) \<noteq> Inr []"
    if "startswith (file_type file) (u ''image/'')"
    by (simp add: extract_content_image [OF that] json_dumps_dict_nonempty split: sum.splits)
  ultimately show ?thesis
    using process_image_events by blast
qed

theorem C8_empty_content_guard_witness:
  "file_type example_pdf = u ''application/pdf''
   \<and> extract_text_from_pdf (example_env\<lparr>pdfplumber_open := (\<lambda>f. Inr [None, Some []])\<rparr>)
        example_pdf = Inr []
   \<and> process (example_env\<lparr>pdfplumber_open := (\<lambda>f. Inr [None, Some []])\<rparr>) example_pdf =
        ([St_spinner (u ''Processing document using CTD's Gen AI...''),
          St_error (u ''No content extracted'')],
         Inl Stopped)
   \<and> startswith (file_type example_png) (u ''image/'')
   \<and> snd (extract_content example_env example_png) \<noteq> Inl Stopped
   \<and> snd (extract_content example_env example_png) \<noteq> Inr []
   \<and> St_error (u ''No content extracted'') \<notin> set (fst (process example_env example_png))"
proof -
  have pdf: "file_type example_pdf = u ''application/pdf''"
    by (simp add: example_pdf_def)
  have empty:
    "extract_text_from_pdf (example_env\<lparr>pdfplumber_open := (\<lambda>f. Inr [None, Some []])\<rparr>)
        example_pdf = Inr []"
    by (simp add: extract_text_from_pdf_def strip_def lstrip_def rstrip_def)
  have image_type: "startswith (file_type example_png) (u ''image/'')"
    by (simp add: example_png_def u_def)
  show ?thesis
    using C8_empty_content_guard
      [of example_pdf "example_env\<lparr>pdfplumber_open := (\<lambda>f. Inr [None, Some []])\<rparr>"]
      C8_empty_content_guard [of example_png example_env] pdf empty image_type
    by simp
qed

end
